theory Spec2Isabelle
  imports Main "HOL-Library.Word"
begin

section \<open>The swap notifier of message-push\<close>

text \<open>
  The repository holds two near-duplicate implementations of package \<open>logic\<close>:
  \<^item> \<open>logic/graph_task.go\<close>, whose persisted state is \<open>Config\<close> (notification targets,
    last block number, transaction hashes) in \<open>app_config.json\<close>;
  \<^item> a second file whose persisted state is \<open>Storage\<close> (last block number, transaction
    hashes) in \<open>storage.json\<close>, with the notification targets in a package constant.
  Both are embedded. Definitions of the first keep the source's names; definitions of the
  second carry the suffix \<open>_storage\<close> where the two differ, and are shared where the source
  text is the same (\<open>FormatSwap\<close>, \<open>contains\<close>).

  What the Go runtime and libraries contribute is made explicit:
  \<^item> a \<open>nil\<close> pointer is \<open>None\<close>, and using it is the run-time panic \<open>NilDereference\<close>;
  \<^item> \<open>math/big\<close>, \<open>time\<close>, the remote GraphQL service and the file system are an
    environment record \<open>env\<close>, so every theorem holds for any behaviour of theirs;
  \<^item> \<open>strconv.Atoi\<close> and \<open>strconv.ParseInt\<close> are modelled in full (64-bit \<open>int\<close>);
  \<^item> calls of \<open>slog\<close> only write log lines and are left out; the mutex of
    \<open>graph_task.go\<close> and its file watcher are not modelled (one pass runs at a time).
\<close>

subsection \<open>Data\<close>

record Swap =
  ID :: string
  Sender :: string
  Recipient :: string
  Amount0 :: string
  Amount1 :: string
  SqrtPriceX96 :: string
  Liquidity :: string
  Tick :: "32 word"
  BlockNumber :: string
  BlockTimestamp :: string
  TransactionHash :: string
  BtcPrice :: string

record Config =
  BarkAPIURLs :: "string list"
  LastBlockNumber :: string
  CurrentTxHashes :: "string list"

record Storage =
  LastBlockNumber_storage :: string
  CurrentTxHashes_storage :: "string list"

datatype error = ErrSyntax | ErrRange | ErrTransport | ErrRead | ErrDecode

datatype panic = NilDereference | ErrNaN | MissingLocation

subsection \<open>strconv\<close>

definition isDigit :: "char \<Rightarrow> bool" where
  "isDigit c = (48 \<le> (of_char c :: nat) \<and> (of_char c :: nat) \<le> 57)"

definition digitVal :: "char \<Rightarrow> int" where
  "digitVal c = (of_char c :: int) - 48"

definition maxUint64 :: int where
  "maxUint64 = 18446744073709551615"

text \<open>
  The digit loop of \<open>strconv.ParseUint(s, 10, 64)\<close>: a byte that is no decimal digit is a
  syntax error with value 0; an overflow of \<open>uint64\<close> stops the loop at once with the
  largest value and a range error, before any later byte is looked at.
\<close>

fun ParseUint_loop :: "string \<Rightarrow> int \<Rightarrow> int \<times> error option" where
  "ParseUint_loop [] n = (n, None)"
| "ParseUint_loop (c # s) n =
     (if \<not> isDigit c then (0, Some ErrSyntax)
      else if n \<ge> maxUint64 div 10 + 1 then (maxUint64, Some ErrRange)
      else if n * 10 + digitVal c > maxUint64 then (maxUint64, Some ErrRange)
      else ParseUint_loop s (n * 10 + digitVal c))"

definition ParseUint :: "string \<Rightarrow> int \<times> error option" where
  "ParseUint s = (if s = [] then (0, Some ErrSyntax) else ParseUint_loop s 0)"

text \<open>\<open>strconv.ParseInt(s, 10, 64)\<close>: an optional sign, then \<open>ParseUint\<close>, then the range
  of \<open>int64\<close> (the value is clamped and the error is \<open>ErrRange\<close>).\<close>

definition ParseInt :: "string \<Rightarrow> int \<times> error option" where
  "ParseInt s0 =
     (if s0 = [] then (0, Some ErrSyntax)
      else
        let neg = (hd s0 = CHR ''-'');
            s = (if hd s0 = CHR ''+'' \<or> hd s0 = CHR ''-'' then tl s0 else s0)
        in case ParseUint s of
             (un, Some ErrSyntax) \<Rightarrow> (0, Some ErrSyntax)
           | (un, _) \<Rightarrow>
               if \<not> neg \<and> un \<ge> 2 ^ 63 then (2 ^ 63 - 1, Some ErrRange)
               else if neg \<and> un > 2 ^ 63 then (- (2 ^ 63), Some ErrRange)
               else (if neg then - un else un, None))"

text \<open>\<open>strconv.Atoi\<close> on a 64-bit platform: its fast path for short strings returns what
  \<open>ParseInt(s, 10, 0)\<close> returns.\<close>

definition Atoi :: "string \<Rightarrow> int \<times> error option" where
  "Atoi s = ParseInt s"

subsection \<open>The environment\<close>

text \<open>A request to the GraphQL endpoint either fails (transport, reading the body,
  decoding the JSON) or decodes to the list \<open>data.swaps\<close>.\<close>

datatype response = Failure error | Page "Swap list"

text \<open>
  \<open>'f\<close> is the type of \<open>*big.Float\<close> values.
  \<^item> \<open>Float_SetString s\<close> is \<open>new(big.Float).SetString(s)\<close>: \<open>None\<close> is the \<open>nil\<close> it
    returns on failure. \<open>Float_Parse s\<close> is \<open>new(big.Float).Parse(s, 10)\<close>, \<open>None\<close> its error.
  \<^item> \<open>Float_Mul\<close> and \<open>Float_Quo\<close> return \<open>None\<close> where the library panics with \<open>ErrNaN\<close>.
  \<^item> \<open>Float_Text x n\<close> is \<open>x.Text('f', n)\<close>.
  \<^item> \<open>LoadLocation\<close> is \<open>time.LoadLocation("Asia/Shanghai")\<close>: \<open>None\<close> when the zone is not
    found, otherwise the function that renders \<open>time.Unix(t, 0).In(loc)\<close> with the layout
    \<open>2006-01-02 15:04:05\<close>.
  \<^item> \<open>api k first gt\<close> is the answer to the \<open>k\<close>-th request ever sent to the endpoint,
    a query for \<open>first\<close> swaps with \<open>blockNumber_gt: gt\<close>.
  \<^item> \<open>canCreate\<close>: \<open>os.Create\<close> of the state file succeeds; \<open>canEncode\<close>: writing the
    encoded document succeeds.
\<close>

record 'f env =
  Float_SetString :: "string \<Rightarrow> 'f option"
  Float_Parse :: "string \<Rightarrow> 'f option"
  Float_NewFloat :: "int \<Rightarrow> 'f"
  Float_Sign :: "'f \<Rightarrow> int"
  Float_Neg :: "'f \<Rightarrow> 'f"
  Float_Mul :: "'f \<Rightarrow> 'f \<Rightarrow> 'f option"
  Float_Quo :: "'f \<Rightarrow> 'f \<Rightarrow> 'f option"
  Float_Text :: "'f \<Rightarrow> nat \<Rightarrow> string"
  LoadLocation :: "(int \<Rightarrow> string) option"
  api :: "nat \<Rightarrow> nat \<Rightarrow> int \<Rightarrow> response"
  canCreate :: bool
  canEncode :: bool

subsection \<open>FormatSwap\<close>

text \<open>
  \<open>FormatSwap\<close> is the same in both files. The results of \<open>SetString\<close> are used without
  looking at the success flag: \<open>amount0Float.Sign()\<close>, \<open>Neg(amount1Float)\<close> and
  \<open>Mul(amountIn, wbtcPrice)\<close> dereference their arguments, so a \<open>nil\<close> there is a panic.
  \<open>.In(loc)\<close> panics on a \<open>nil\<close> location.
\<close>

definition FormatSwap :: "'f env \<Rightarrow> Swap \<Rightarrow> panic + string" where
  "FormatSwap e swap =
     (let amount0Float = Float_SetString e (Amount0 swap);
          amount1Float = Float_SetString e (Amount1 swap)
      in case amount0Float of
           None \<Rightarrow> Inl NilDereference
         | Some a0 \<Rightarrow>
            (case (if Float_Sign e a0 < 0
                   then Inr (amount1Float, Float_Neg e a0, ''WBTC'', ''UNIBTC'')
                   else (case amount1Float of
                           None \<Rightarrow> Inl NilDereference
                         | Some a1 \<Rightarrow> Inr (Some a0, Float_Neg e a1, ''UNIBTC'', ''WBTC'')))
             of
               Inl p \<Rightarrow> Inl p
             | Inr (amountIn, amountOut, tokenIn, tokenOut) \<Rightarrow>
                (let wbtcPrice =
                       (if BtcPrice swap \<noteq> ''''
                        then (case Float_Parse e (BtcPrice swap) of
                                Some parsedPrice \<Rightarrow> parsedPrice
                              | None \<Rightarrow> Float_NewFloat e 100000)
                        else Float_NewFloat e 100000)
                 in case amountIn of
                      None \<Rightarrow> Inl NilDereference
                    | Some ain \<Rightarrow>
                       (case Float_Mul e ain wbtcPrice of
                          None \<Rightarrow> Inl ErrNaN
                        | Some vol \<Rightarrow>
                           (case (Float_Quo e ain (Float_NewFloat e 100000000),
                                  Float_Quo e amountOut (Float_NewFloat e 100000000),
                                  Float_Quo e vol (Float_NewFloat e 100000000)) of
                              (Some qin, Some qout, Some qvol) \<Rightarrow>
                                (let amountInStr = Float_Text e qin 5;
                                     amountOutStr = Float_Text e qout 5;
                                     volStr = Float_Text e qvol 2
                                 in case ParseInt (BlockTimestamp swap) of
                                      (timestamp, Some err) \<Rightarrow> Inr ''''
                                    | (timestamp, None) \<Rightarrow>
                                       (case LoadLocation e of
                                          None \<Rightarrow> Inl MissingLocation
                                        | Some render \<Rightarrow>
                                            Inr (render timestamp @ ''  '' @ amountInStr @ '' ''
                                                 @ tokenIn @ '' -> '' @ amountOutStr @ '' ''
                                                 @ tokenOut @ '' Vol: $'' @ volStr)))
                            | _ \<Rightarrow> Inl ErrNaN)))))"

subsection \<open>State\<close>

text \<open>
  A state file either decodes to a value (\<open>Document\<close>) or makes \<open>Decode\<close> fail
  (\<open>Corrupt\<close>); a missing file, on which \<open>os.Open\<close> fails, is \<open>None\<close>. A document is
  taken to hold every field of the state, as the files that the program writes do.

  The effects of a run are kept as traces: \<open>requests\<close> lists the queries sent to the
  GraphQL endpoint (the \<open>blockNumber_gt\<close> of each with the answer it got), \<open>sent\<close> the
  \<open>http.Get\<close> calls of the notifier (the transaction hash of the swap each was made for,
  and the URL), \<open>slept\<close> the seconds spent in \<open>time.Sleep\<close>.
\<close>

datatype 'c contents = Document 'c | Corrupt

record io =
  requests :: "(int \<times> response) list"
  sent :: "(string \<times> string) list"
  slept :: nat

record world = io +
  configData :: Config
  configFile :: "Config contents option"

record world_storage = io +
  storageData :: Storage
  storageFile :: "Storage contents option"

definition pageSize :: nat where
  "pageSize = 50"

text \<open>\<open>http.Get(url)\<close>, called for a swap: the three outcomes (transport error, a status
  other than 200, status 200) differ in the log line only.\<close>

definition httpGet :: "Swap \<Rightarrow> string \<Rightarrow> 'a io_scheme \<Rightarrow> 'a io_scheme" where
  "httpGet swap url w = w\<lparr>sent := sent w @ [(TransactionHash swap, url)]\<rparr>"

fun contains :: "string list \<Rightarrow> string \<Rightarrow> bool" where
  "contains [] item = False"
| "contains (s # slice') item = (if s = item then True else contains slice' item)"

subsection \<open>\<open>graph_task.go\<close>: the configuration store\<close>

definition defaultConfig :: Config where
  "defaultConfig =
     \<lparr>BarkAPIURLs =
        [''https://api.day.app/iuizSoSLLvtMTZhhmuWetY/%E4%BA%A4%E6%98%93%E6%8F%90%E9%86%92/''],
      LastBlockNumber = ''21612681'',
      CurrentTxHashes =
        [''0xccce6256453e517062bb4cfb74494a0bdb2fefa793f75d3d31cf041d76bf99fd'']\<rparr>"

text \<open>\<open>saveConfig\<close>: when \<open>os.Create\<close> fails nothing is written; when it succeeds the file
  is truncated, and a failing \<open>Encode\<close> leaves a file that does not decode.\<close>

definition saveConfig :: "'f env \<Rightarrow> world \<Rightarrow> world" where
  "saveConfig e w =
     (if \<not> canCreate e then w
      else if \<not> canEncode e then w\<lparr>configFile := Some Corrupt\<rparr>
      else w\<lparr>configFile := Some (Document (configData w))\<rparr>)"

definition loadConfig :: "'f env \<Rightarrow> world \<Rightarrow> world" where
  "loadConfig e w =
     (case configFile w of
        None \<Rightarrow> saveConfig e (w\<lparr>configData := defaultConfig\<rparr>)
      | Some Corrupt \<Rightarrow> w
      | Some (Document newConfig) \<Rightarrow> w\<lparr>configData := newConfig\<rparr>)"

definition getBarkAPIURLs :: "world \<Rightarrow> string list" where
  "getBarkAPIURLs w = BarkAPIURLs (configData w)"

definition getLastBlockNumber :: "world \<Rightarrow> string" where
  "getLastBlockNumber w = LastBlockNumber (configData w)"

definition getCurrentTxHashes :: "world \<Rightarrow> string list" where
  "getCurrentTxHashes w = CurrentTxHashes (configData w)"

definition setLastBlockNumber :: "string \<Rightarrow> world \<Rightarrow> world" where
  "setLastBlockNumber blockNumber w =
     w\<lparr>configData := (configData w)\<lparr>LastBlockNumber := blockNumber\<rparr>\<rparr>"

definition setCurrentTxHashes :: "string list \<Rightarrow> world \<Rightarrow> world" where
  "setCurrentTxHashes txHashes w =
     w\<lparr>configData := (configData w)\<lparr>CurrentTxHashes := txHashes\<rparr>\<rparr>"

subsection \<open>\<open>graph_task.go\<close>: fetching\<close>

text \<open>
  The loop of \<open>fetchSwaps\<close>. It has no bound of its own: it runs for as long as the
  endpoint answers with full pages, so it is a partial function and \<open>None\<close> stands for a
  run that never returns. The result is the Go pair \<open>([]Swap, error)\<close> with the trace of
  requests; \<open>return nil, err\<close> is \<open>([], Some err)\<close>. The error of \<open>Atoi\<close> on the block
  number of a page's last swap is dropped, as in the source.
\<close>

partial_function (option) fetchSwaps_loop ::
  "'f env \<Rightarrow> (int \<times> response) list \<Rightarrow> int \<Rightarrow> Swap list
     \<Rightarrow> ((int \<times> response) list \<times> Swap list \<times> error option) option"
where
  "fetchSwaps_loop e reqs startBlock allSwaps =
     (let resp = api e (length reqs) pageSize startBlock;
          reqs' = reqs @ [(startBlock, resp)]
      in case resp of
           Failure err \<Rightarrow> Some (reqs', [], Some err)
         | Page swaps \<Rightarrow>
             if length swaps = 0 then Some (reqs', allSwaps, None)
             else
               let allSwaps' = allSwaps @ swaps;
                   newStartBlock = fst (Atoi (BlockNumber (swaps ! (length swaps - 1))))
               in if length swaps < pageSize then Some (reqs', allSwaps', None)
                  else fetchSwaps_loop e reqs' newStartBlock allSwaps')"

definition fetchSwaps :: "'f env \<Rightarrow> world \<Rightarrow> (world \<times> Swap list \<times> error option) option" where
  "fetchSwaps e w =
     (let startBlock = fst (Atoi (getLastBlockNumber w))
      in case fetchSwaps_loop e (requests w) startBlock [] of
           None \<Rightarrow> None
         | Some (reqs, swaps, err) \<Rightarrow> Some (w\<lparr>requests := reqs\<rparr>, swaps, err))"

subsection \<open>\<open>graph_task.go\<close>: notifying and the pass\<close>

text \<open>\<open>sendNotification\<close> first renders the swap's time for a log line; of that only the
  panic of \<open>.In(loc)\<close> on a \<open>nil\<close> location remains here. It returns \<open>nil\<close> on every path
  that returns: failed deliveries are logged and the loop over the targets goes on.\<close>

definition sendNotification :: "'f env \<Rightarrow> Swap \<Rightarrow> world \<Rightarrow> world \<times> (panic + error option)" where
  "sendNotification e swap w =
     (case LoadLocation e of
        None \<Rightarrow> (w, Inl MissingLocation)
      | Some render \<Rightarrow>
         (case FormatSwap e swap of
            Inl p \<Rightarrow> (w, Inl p)
          | Inr message \<Rightarrow>
              if message = '''' then (w, Inr None)
              else (foldl (\<lambda>w' baseURL. httpGet swap (baseURL @ message @ ''?call=1'') w')
                      w (getBarkAPIURLs w),
                    Inr None)))"

text \<open>The \<open>for _, swap := range swaps\<close> loop of \<open>GraphTask\<close>; a panic of
  \<open>sendNotification\<close> ends it.\<close>

fun GraphTask_loop ::
  "'f env \<Rightarrow> Swap list \<Rightarrow> string list \<Rightarrow> world \<Rightarrow> world \<times> (panic + string list)" where
  "GraphTask_loop e [] newTxHashes w = (w, Inr newTxHashes)"
| "GraphTask_loop e (swap # swaps) newTxHashes w =
     (if \<not> contains (getCurrentTxHashes w) (TransactionHash swap)
      then (case sendNotification e swap w of
              (w', Inl p) \<Rightarrow> (w', Inl p)
            | (w', Inr (Some err)) \<Rightarrow> GraphTask_loop e swaps newTxHashes w'
            | (w', Inr None) \<Rightarrow>
                GraphTask_loop e swaps (newTxHashes @ [TransactionHash swap]) w')
      else GraphTask_loop e swaps newTxHashes w)"

text \<open>One pass. The result is \<open>None\<close> when the fetch never returns; otherwise the world
  after the pass with either the panic that ended it or the \<open>error\<close> it returned.\<close>

definition GraphTask :: "'f env \<Rightarrow> world \<Rightarrow> (world \<times> (panic + error option)) option" where
  "GraphTask e w =
     (case fetchSwaps e w of
        None \<Rightarrow> None
      | Some (w1, swaps, Some err) \<Rightarrow> Some (w1\<lparr>slept := slept w1 + 3\<rparr>, Inr (Some err))
      | Some (w1, swaps, None) \<Rightarrow>
          if length swaps = 0 then Some (w1, Inr None)
          else (case GraphTask_loop e swaps [] w1 of
                  (w2, Inl p) \<Rightarrow> Some (w2, Inl p)
                | (w2, Inr newTxHashes) \<Rightarrow>
                    if length swaps > 0
                    then Some (saveConfig e
                                 (setCurrentTxHashes newTxHashes
                                    (setLastBlockNumber (BlockNumber (swaps ! 0)) w2)),
                               Inr None)
                    else Some (w2, Inr None)))"

subsection \<open>The \<open>storage.json\<close> variant\<close>

definition barkAPIURLs :: "string list" where
  "barkAPIURLs =
     [''https://api.day.app/iuizSoSLLvtMTZhhmuWetY/%E4%BA%A4%E6%98%93%E6%8F%90%E9%86%92/'']"

definition saveStorage :: "'f env \<Rightarrow> world_storage \<Rightarrow> world_storage" where
  "saveStorage e w =
     (if \<not> canCreate e then w
      else if \<not> canEncode e then w\<lparr>storageFile := Some Corrupt\<rparr>
      else w\<lparr>storageFile := Some (Document (storageData w))\<rparr>)"

definition loadStorage :: "'f env \<Rightarrow> world_storage \<Rightarrow> world_storage" where
  "loadStorage e w =
     (case storageFile w of
        None \<Rightarrow>
          saveStorage e
            (w\<lparr>storageData :=
                 \<lparr>LastBlockNumber_storage = ''21612681'',
                  CurrentTxHashes_storage =
                    [''0xccce6256453e517062bb4cfb74494a0bdb2fefa793f75d3d31cf041d76bf99fd'']\<rparr>\<rparr>)
      | Some Corrupt \<Rightarrow>
          w\<lparr>storageData := \<lparr>LastBlockNumber_storage = ''0'', CurrentTxHashes_storage = []\<rparr>\<rparr>
      | Some (Document d) \<Rightarrow> w\<lparr>storageData := d\<rparr>)"

definition parseLastBlockNumber :: "world_storage \<Rightarrow> int" where
  "parseLastBlockNumber w =
     (case Atoi (LastBlockNumber_storage (storageData w)) of
        (blockNumber, Some err) \<Rightarrow> 21584546
      | (blockNumber, None) \<Rightarrow> blockNumber)"

text \<open>Here the loop returns the error of \<open>Atoi\<close> on the block number of a page's last
  swap, before it looks at the length of the page.\<close>

partial_function (option) fetchSwaps_loop_storage ::
  "'f env \<Rightarrow> (int \<times> response) list \<Rightarrow> int \<Rightarrow> Swap list
     \<Rightarrow> ((int \<times> response) list \<times> Swap list \<times> error option) option"
where
  "fetchSwaps_loop_storage e reqs startBlock allSwaps =
     (let resp = api e (length reqs) pageSize startBlock;
          reqs' = reqs @ [(startBlock, resp)]
      in case resp of
           Failure err \<Rightarrow> Some (reqs', [], Some err)
         | Page swaps \<Rightarrow>
             if length swaps = 0 then Some (reqs', allSwaps, None)
             else
               let allSwaps' = allSwaps @ swaps
               in (case Atoi (BlockNumber (swaps ! (length swaps - 1))) of
                     (newStartBlock, Some err) \<Rightarrow> Some (reqs', [], Some err)
                   | (newStartBlock, None) \<Rightarrow>
                       if length swaps < pageSize then Some (reqs', allSwaps', None)
                       else fetchSwaps_loop_storage e reqs' newStartBlock allSwaps'))"

definition fetchSwaps_storage ::
  "'f env \<Rightarrow> world_storage \<Rightarrow> (world_storage \<times> Swap list \<times> error option) option" where
  "fetchSwaps_storage e w =
     (let startBlock = parseLastBlockNumber w
      in case fetchSwaps_loop_storage e (requests w) startBlock [] of
           None \<Rightarrow> None
         | Some (reqs, swaps, err) \<Rightarrow> Some (w\<lparr>requests := reqs\<rparr>, swaps, err))"

text \<open>\<open>sendNotification\<close> falls back to the current time when the timestamp does not
  parse; the time is used for a log line only.\<close>

definition sendNotification_storage ::
  "'f env \<Rightarrow> Swap \<Rightarrow> world_storage \<Rightarrow> world_storage \<times> (panic + error option)" where
  "sendNotification_storage e swap w =
     (case LoadLocation e of
        None \<Rightarrow> (w, Inl MissingLocation)
      | Some render \<Rightarrow>
         (case FormatSwap e swap of
            Inl p \<Rightarrow> (w, Inl p)
          | Inr message \<Rightarrow>
              if message = '''' then (w, Inr None)
              else (foldl (\<lambda>w' baseURL. httpGet swap (baseURL @ message @ ''?call=1'') w')
                      w barkAPIURLs,
                    Inr None)))"

fun GraphTask_loop_storage ::
  "'f env \<Rightarrow> Swap list \<Rightarrow> string list \<Rightarrow> world_storage
     \<Rightarrow> world_storage \<times> (panic + string list)" where
  "GraphTask_loop_storage e [] newTxHashes w = (w, Inr newTxHashes)"
| "GraphTask_loop_storage e (swap # swaps) newTxHashes w =
     (if \<not> contains (CurrentTxHashes_storage (storageData w)) (TransactionHash swap)
      then (case sendNotification_storage e swap w of
              (w', Inl p) \<Rightarrow> (w', Inl p)
            | (w', Inr (Some err)) \<Rightarrow> GraphTask_loop_storage e swaps newTxHashes w'
            | (w', Inr None) \<Rightarrow>
                GraphTask_loop_storage e swaps (newTxHashes @ [TransactionHash swap]) w')
      else GraphTask_loop_storage e swaps newTxHashes w)"

definition GraphTask_storage ::
  "'f env \<Rightarrow> world_storage \<Rightarrow> (world_storage \<times> (panic + error option)) option" where
  "GraphTask_storage e w =
     (case fetchSwaps_storage e w of
        None \<Rightarrow> None
      | Some (w1, swaps, Some err) \<Rightarrow> Some (w1\<lparr>slept := slept w1 + 3\<rparr>, Inr (Some err))
      | Some (w1, swaps, None) \<Rightarrow>
          if length swaps = 0 then Some (w1, Inr None)
          else (case GraphTask_loop_storage e swaps [] w1 of
                  (w2, Inl p) \<Rightarrow> Some (w2, Inl p)
                | (w2, Inr newTxHashes) \<Rightarrow>
                    if length swaps > 0
                    then Some (saveStorage e
                                 (w2\<lparr>storageData :=
                                       (storageData w2)
                                         \<lparr>LastBlockNumber_storage := BlockNumber (swaps ! 0),
                                          CurrentTxHashes_storage := newTxHashes\<rparr>\<rparr>),
                               Inr None)
                    else Some (w2, Inr None)))"

subsection \<open>A reference environment\<close>

text \<open>
  To run the definitions on concrete swaps, the library functions are given a reference
  implementation on exact fractions \<open>(numerator, denominator)\<close>. It covers what the
  theorems are evaluated on and no more: literals made of an optional sign, digits and an
  optional fraction (no exponent, prefix, underscore or \<open>Inf\<close>), no rounding of the
  mantissa, and the zone \<open>Asia/Shanghai\<close> as the fixed offset of eight hours that it has
  been since 1991. \<open>Text\<close> rounds half to even, as \<open>math/big\<close> does.
\<close>

function showNat :: "int \<Rightarrow> string" where
  "showNat n =
     (if n < 10 then [char_of (48 + n)]
      else showNat (n div 10) @ [char_of (48 + n mod 10)])"
  by pat_completeness auto
termination
  by (relation "measure nat") auto

declare showNat.simps [simp del]

definition padLeft :: "nat \<Rightarrow> string \<Rightarrow> string" where
  "padLeft k s = replicate (k - length s) (CHR ''0'') @ s"

definition ref_SetString :: "string \<Rightarrow> (int \<times> int) option" where
  "ref_SetString s0 =
     (let neg = (s0 \<noteq> [] \<and> hd s0 = CHR ''-'');
          s = (if s0 \<noteq> [] \<and> (hd s0 = CHR ''+'' \<or> hd s0 = CHR ''-'') then tl s0 else s0);
          ip = takeWhile isDigit s;
          rest = dropWhile isDigit s;
          fp = (if rest \<noteq> [] \<and> hd rest = CHR ''.'' then tl rest else rest)
      in if (ip = [] \<and> fp = []) \<or> \<not> list_all isDigit fp then None
         else Some ((if neg then - 1 else 1) * foldl (\<lambda>n c. n * 10 + digitVal c) 0 (ip @ fp),
                    10 ^ length fp))"

definition ref_Mul :: "int \<times> int \<Rightarrow> int \<times> int \<Rightarrow> (int \<times> int) option" where
  "ref_Mul x y = Some (fst x * fst y, snd x * snd y)"

definition ref_Quo :: "int \<times> int \<Rightarrow> int \<times> int \<Rightarrow> (int \<times> int) option" where
  "ref_Quo x y =
     (if fst y = 0 then None
      else Some (fst x * snd y * sgn (fst y), snd x * \<bar>fst y\<bar>))"

definition ref_Text :: "int \<times> int \<Rightarrow> nat \<Rightarrow> string" where
  "ref_Text x n =
     (let scaled = \<bar>fst x\<bar> * 10 ^ n;
          den = snd x;
          q = scaled div den;
          r = scaled mod den;
          rounded = (if 2 * r > den \<or> (2 * r = den \<and> odd q) then q + 1 else q)
      in (if fst x < 0 then ''-'' else '''')
         @ showNat (rounded div 10 ^ n)
         @ (if n = 0 then '''' else ''.'' @ padLeft n (showNat (rounded mod 10 ^ n))))"

definition ref_render :: "int \<Rightarrow> string" where
  "ref_render t =
     (let local = t + 8 * 3600;
          days = local div 86400;
          secs = local mod 86400;
          z = days + 719468;
          era = z div 146097;
          doe = z - era * 146097;
          yoe = (doe - doe div 1460 + doe div 36524 - doe div 146096) div 365;
          doy = doe - (365 * yoe + yoe div 4 - yoe div 100);
          mp = (5 * doy + 2) div 153;
          d = doy - (153 * mp + 2) div 5 + 1;
          m = (if mp < 10 then mp + 3 else mp - 9);
          y = yoe + era * 400 + (if m \<le> 2 then 1 else 0)
      in padLeft 4 (showNat y) @ ''-'' @ padLeft 2 (showNat m) @ ''-''
         @ padLeft 2 (showNat d) @ '' '' @ padLeft 2 (showNat (secs div 3600))
         @ '':'' @ padLeft 2 (showNat (secs mod 3600 div 60))
         @ '':'' @ padLeft 2 (showNat (secs mod 60)))"

definition ref_env :: "(nat \<Rightarrow> nat \<Rightarrow> int \<Rightarrow> response) \<Rightarrow> (int \<times> int) env" where
  "ref_env remote =
     \<lparr>Float_SetString = ref_SetString,
      Float_Parse = ref_SetString,
      Float_NewFloat = (\<lambda>i. (i, 1)),
      Float_Sign = (\<lambda>x. sgn (fst x)),
      Float_Neg = (\<lambda>x. (- fst x, snd x)),
      Float_Mul = ref_Mul,
      Float_Quo = ref_Quo,
      Float_Text = ref_Text,
      LoadLocation = Some ref_render,
      api = remote,
      canCreate = True,
      canEncode = True\<rparr>"

text \<open>The swap of the specification's worked scenario.\<close>

definition swap1 :: Swap where
  "swap1 =
     \<lparr>ID = ''s1'', Sender = ''0xa'', Recipient = ''0xb'',
      Amount0 = ''-100000000'', Amount1 = ''200000000'',
      SqrtPriceX96 = ''1'', Liquidity = ''1'', Tick = 0,
      BlockNumber = ''21612700'', BlockTimestamp = ''1700000000'',
      TransactionHash = ''0xh1'', BtcPrice = ''100000''\<rparr>"

subsection \<open>Vocabulary of the properties\<close>

text \<open>The \<open>http.Get\<close> calls that \<open>sendNotification\<close> makes for a swap, given the target
  URLs: none when \<open>FormatSwap\<close> panics or returns the empty string.\<close>

definition deliveries :: "'f env \<Rightarrow> string list \<Rightarrow> Swap \<Rightarrow> (string \<times> string) list" where
  "deliveries e urls swap =
     (case FormatSwap e swap of
        Inr message \<Rightarrow>
          (if message = '''' \<or> LoadLocation e = None then []
           else map (\<lambda>baseURL. (TransactionHash swap, baseURL @ message @ ''?call=1'')) urls)
      | Inl p \<Rightarrow> [])"

text \<open>
  A trace of requests \<open>tr\<close>, sent from request number \<open>k\<close> on, is \<open>answered\<close> when each
  entry holds the endpoint's answer to that request; \<open>pages tr\<close> are the swaps of its
  pages, in order.

  \<open>paginated c tr\<close> says that \<open>tr\<close> is one complete pagination from cursor \<open>c\<close>: every
  request got a page; a page with fewer than \<open>pageSize\<close> swaps (an empty one among them)
  is the last; after a page that is not the last, the next request carries the block
  number of that page's last swap.
\<close>

fun answered :: "'f env \<Rightarrow> nat \<Rightarrow> (int \<times> response) list \<Rightarrow> bool" where
  "answered e k [] = True"
| "answered e k ((c, r) # tr) = (r = api e k pageSize c \<and> answered e (Suc k) tr)"

fun pages :: "(int \<times> response) list \<Rightarrow> Swap list" where
  "pages [] = []"
| "pages ((c, Page p) # tr) = p @ pages tr"
| "pages ((c, Failure err) # tr) = pages tr"

fun paginated :: "int \<Rightarrow> (int \<times> response) list \<Rightarrow> bool" where
  "paginated c [] = False"
| "paginated c ((c', Failure err) # tr) = False"
| "paginated c ((c', Page p) # tr) =
     (c' = c \<and> (if length p < pageSize then tr = []
                else paginated (fst (Atoi (BlockNumber (last p)))) tr))"

text \<open>In the \<open>storage.json\<close> variant the block number of the last swap of every page that
  is not empty has to parse as well, or the fetch ends with that error.\<close>

fun paginated_storage :: "int \<Rightarrow> (int \<times> response) list \<Rightarrow> bool" where
  "paginated_storage c [] = False"
| "paginated_storage c ((c', Failure err) # tr) = False"
| "paginated_storage c ((c', Page p) # tr) =
     (c' = c \<and>
      (if p = [] then tr = []
       else (case Atoi (BlockNumber (last p)) of
               (n, Some err) \<Rightarrow> False
             | (n, None) \<Rightarrow> if length p < pageSize then tr = [] else paginated_storage n tr)))"

text \<open>A swap is \<open>newer\<close> than a cursor when its block number is a number above it. The
  endpoint \<open>respects_filter\<close> when every page it returns holds only swaps newer than the
  \<open>blockNumber_gt\<close> of the request.\<close>

definition newer :: "int \<Rightarrow> Swap \<Rightarrow> bool" where
  "newer c swap = (case Atoi (BlockNumber swap) of (n, None) \<Rightarrow> c < n | (n, Some err) \<Rightarrow> False)"

definition respects_filter :: "'f env \<Rightarrow> bool" where
  "respects_filter e =
     (\<forall>k first gt p. api e k first gt = Page p \<longrightarrow> (\<forall>swap \<in> set p. newer gt swap))"

text \<open>
  The \<open>urlEncode\<close> of the specification: percent-encoding, every byte that is not an
  unreserved character (letter, digit, \<open>-\<close>, \<open>_\<close>, \<open>.\<close>, \<open>~\<close>) becomes \<open>%\<close> and two
  hexadecimal digits. No function of the source computes it; it is defined here to compare
  the URL of the specification with the URL that \<open>sendNotification\<close> builds.
\<close>

definition unreserved :: "char \<Rightarrow> bool" where
  "unreserved c =
     (let n = (of_char c :: nat)
      in (48 \<le> n \<and> n \<le> 57) \<or> (65 \<le> n \<and> n \<le> 90) \<or> (97 \<le> n \<and> n \<le> 122)
         \<or> c = CHR ''-'' \<or> c = CHR ''_'' \<or> c = CHR ''.'' \<or> c = CHR ''~'')"

definition hexDigit :: "nat \<Rightarrow> char" where
  "hexDigit n = ''0123456789ABCDEF'' ! n"

definition urlEncode :: "string \<Rightarrow> string" where
  "urlEncode s =
     concat (map (\<lambda>c. if unreserved c then [c]
                       else [CHR ''%'', hexDigit ((of_char c :: nat) div 16),
                             hexDigit ((of_char c :: nat) mod 16)]) s)"

subsection \<open>Concrete inputs\<close>

definition swap2 :: Swap where
  "swap2 =
     \<lparr>ID = ''s2'', Sender = ''0xc'', Recipient = ''0xd'',
      Amount0 = ''300000000'', Amount1 = ''-299000000'',
      SqrtPriceX96 = ''1'', Liquidity = ''1'', Tick = 0,
      BlockNumber = ''21612701'', BlockTimestamp = ''1700000012'',
      TransactionHash = ''0xh2'', BtcPrice = ''''\<rparr>"

text \<open>A swap whose \<open>amount0\<close> is no number.\<close>

definition swap_bad :: Swap where
  "swap_bad = swap1\<lparr>Amount0 := ''abc'', TransactionHash := ''0xh3''\<rparr>"

text \<open>An endpoint that holds \<open>swap2\<close> and \<open>swap1\<close> and honours \<open>blockNumber_gt\<close>; one that
  is down; one that answers the first request with a full page and the second with a
  short one; one that returns \<open>swap_bad\<close>.\<close>

definition remote :: "nat \<Rightarrow> nat \<Rightarrow> int \<Rightarrow> response" where
  "remote k first gt =
     (if gt < 21612700 then Page [swap2, swap1]
      else if gt < 21612701 then Page [swap2]
      else Page [])"

definition remote_down :: "nat \<Rightarrow> nat \<Rightarrow> int \<Rightarrow> response" where
  "remote_down k first gt = Failure ErrTransport"

definition remote_paged :: "nat \<Rightarrow> nat \<Rightarrow> int \<Rightarrow> response" where
  "remote_paged k first gt =
     (if k = 0 then Page (replicate 50 swap2)
      else if k = 1 then Page [swap1]
      else Page [])"

definition remote_bad :: "nat \<Rightarrow> nat \<Rightarrow> int \<Rightarrow> response" where
  "remote_bad k first gt = Page [swap_bad]"

definition world0 :: world where
  "world0 =
     \<lparr>requests = [], sent = [], slept = 0,
      configData = defaultConfig, configFile = Some (Document defaultConfig)\<rparr>"

definition storage0 :: Storage where
  "storage0 =
     \<lparr>LastBlockNumber_storage = ''21612681'',
      CurrentTxHashes_storage =
        [''0xccce6256453e517062bb4cfb74494a0bdb2fefa793f75d3d31cf041d76bf99fd'']\<rparr>"

definition world0_storage :: world_storage where
  "world0_storage =
     \<lparr>requests = [], sent = [], slept = 0,
      storageData = storage0, storageFile = Some (Document storage0)\<rparr>"

text \<open>The two notification URLs that a pass over \<open>swap2\<close> and \<open>swap1\<close> requests, and the
  state after such a pass from \<open>world0\<close>.\<close>

definition url1 :: string where
  "url1 = ''https://api.day.app/iuizSoSLLvtMTZhhmuWetY/%E4%BA%A4%E6%98%93%E6%8F%90%E9%86%92/2023-11-15 06:13:20  2.00000 WBTC -> 1.00000 UNIBTC Vol: $200000.00?call=1''"

definition url2 :: string where
  "url2 = ''https://api.day.app/iuizSoSLLvtMTZhhmuWetY/%E4%BA%A4%E6%98%93%E6%8F%90%E9%86%92/2023-11-15 06:13:32  3.00000 UNIBTC -> 2.99000 WBTC Vol: $300000.00?call=1''"

definition config1 :: Config where
  "config1 =
     defaultConfig\<lparr>LastBlockNumber := ''21612701'', CurrentTxHashes := [''0xh2'', ''0xh1'']\<rparr>"

definition world1 :: world where
  "world1 =
     \<lparr>requests = [(21612681, Page [swap2, swap1])],
      sent = [(''0xh2'', url2), (''0xh1'', url1)], slept = 0,
      configData = config1, configFile = Some (Document config1)\<rparr>"

definition storage1 :: Storage where
  "storage1 =
     \<lparr>LastBlockNumber_storage = ''21612701'', CurrentTxHashes_storage = [''0xh2'', ''0xh1'']\<rparr>"

definition world1_storage :: world_storage where
  "world1_storage =
     \<lparr>requests = [(21612681, Page [swap2, swap1])],
      sent = [(''0xh2'', url2), (''0xh1'', url1)], slept = 0,
      storageData = storage1, storageFile = Some (Document storage1)\<rparr>"

text \<open>An endpoint that returns \<open>swap2\<close> and \<open>swap1\<close> whatever the cursor, and the state
  after a pass against it from \<open>world1\<close>.\<close>

definition remote_again :: "nat \<Rightarrow> nat \<Rightarrow> int \<Rightarrow> response" where
  "remote_again k first gt = Page [swap2, swap1]"

definition world2 :: world where
  "world2 =
     \<lparr>requests = [(21612681, Page [swap2, swap1]), (21612701, Page [swap2, swap1])],
      sent = [(''0xh2'', url2), (''0xh1'', url1)], slept = 0,
      configData = config1\<lparr>CurrentTxHashes := []\<rparr>,
      configFile = Some (Document (config1\<lparr>CurrentTxHashes := []\<rparr>))\<rparr>"

definition world2_storage :: world_storage where
  "world2_storage =
     \<lparr>requests = [(21612681, Page [swap2, swap1]), (21612701, Page [swap2, swap1])],
      sent = [(''0xh2'', url2), (''0xh1'', url1)], slept = 0,
      storageData = storage1\<lparr>CurrentTxHashes_storage := []\<rparr>,
      storageFile = Some (Document (storage1\<lparr>CurrentTxHashes_storage := []\<rparr>))\<rparr>"

section \<open>Properties\<close>

subsection \<open>Notifications\<close>

lemma contains_iff: "contains slice' item \<longleftrightarrow> item \<in> set slice'"
  by (induction slice') auto

lemma foldl_httpGet:
  "foldl (\<lambda>w' baseURL. httpGet swap (f baseURL) w') w urls
     = w\<lparr>sent := sent w @ map (\<lambda>baseURL. (TransactionHash swap, f baseURL)) urls\<rparr>"
  by (induction urls arbitrary: w) (simp_all add: httpGet_def)

lemma deliveries_hash: "x \<in> set (deliveries e urls swap) \<Longrightarrow> fst x = TransactionHash swap"
  by (auto simp: deliveries_def split: sum.splits if_splits)

lemma sendNotification_world:
  "fst (sendNotification e swap w)
     = w\<lparr>sent := sent w @ deliveries e (getBarkAPIURLs w) swap\<rparr>"
  by (simp add: sendNotification_def deliveries_def foldl_httpGet
      split: option.splits sum.splits)

lemma sendNotification_no_error: "snd (sendNotification e swap w) \<noteq> Inr (Some err)"
  by (simp add: sendNotification_def split: option.splits sum.splits)

lemma sendNotification_cases:
  obtains p where
    "sendNotification e swap w
       = (w\<lparr>sent := sent w @ deliveries e (getBarkAPIURLs w) swap\<rparr>, Inl p)"
  | "sendNotification e swap w
       = (w\<lparr>sent := sent w @ deliveries e (getBarkAPIURLs w) swap\<rparr>, Inr None)"
proof -
  have "fst (sendNotification e swap w)
          = w\<lparr>sent := sent w @ deliveries e (getBarkAPIURLs w) swap\<rparr>"
    by (rule sendNotification_world)
  moreover have "snd (sendNotification e swap w) \<noteq> Inr (Some err)" for err
    by (rule sendNotification_no_error)
  ultimately show thesis
    using that
    by (cases "sendNotification e swap w"; cases "snd (sendNotification e swap w)") auto
qed

lemma sendNotification_storage_world:
  "fst (sendNotification_storage e swap w)
     = w\<lparr>sent := sent w @ deliveries e barkAPIURLs swap\<rparr>"
  by (simp add: sendNotification_storage_def deliveries_def foldl_httpGet
      split: option.splits sum.splits)

lemma sendNotification_storage_no_error:
  "snd (sendNotification_storage e swap w) \<noteq> Inr (Some err)"
  by (simp add: sendNotification_storage_def split: option.splits sum.splits)

lemma sendNotification_storage_cases:
  obtains p where
    "sendNotification_storage e swap w
       = (w\<lparr>sent := sent w @ deliveries e barkAPIURLs swap\<rparr>, Inl p)"
  | "sendNotification_storage e swap w
       = (w\<lparr>sent := sent w @ deliveries e barkAPIURLs swap\<rparr>, Inr None)"
proof -
  have "fst (sendNotification_storage e swap w)
          = w\<lparr>sent := sent w @ deliveries e barkAPIURLs swap\<rparr>"
    by (rule sendNotification_storage_world)
  moreover have "snd (sendNotification_storage e swap w) \<noteq> Inr (Some err)" for err
    by (rule sendNotification_storage_no_error)
  ultimately show thesis
    using that
    by (cases "sendNotification_storage e swap w";
        cases "snd (sendNotification_storage e swap w)") auto
qed

subsection \<open>\<open>Atoi\<close> reads decimal numerals\<close>

text \<open>For every number of \<open>int64\<close> that is not negative, \<open>Atoi\<close> of its decimal
  representation is the number, with no error: the cursor that the fetch takes from a
  block number written in decimal is that block number.\<close>

lemma digit_char:
  assumes "0 \<le> d" "d < 10"
  shows "isDigit (char_of (48 + d))" and "digitVal (char_of (48 + d)) = d"
proof -
  from assms have m: "(48 + d) mod 256 = 48 + d" by simp
  have i: "(of_char (char_of (48 + d)) :: int) = 48 + d"
    using m by simp
  have "(of_char (char_of (48 + d)) :: nat) = nat (of_char (char_of (48 + d)) :: int)"
    by (simp only: nat_of_char)
  with i have n: "(of_char (char_of (48 + d)) :: nat) = nat (48 + d)" by simp
  from n assms show "isDigit (char_of (48 + d))" unfolding isDigit_def by arith
  from i show "digitVal (char_of (48 + d)) = d" by (simp add: digitVal_def)
qed

lemma ParseUint_loop_digit:
  assumes "0 \<le> d" "d < 10" "0 \<le> acc" "acc * 10 + d \<le> maxUint64"
  shows "ParseUint_loop (char_of (48 + d) # rest) acc = ParseUint_loop rest (acc * 10 + d)"
proof -
  from assms have "acc < maxUint64 div 10 + 1" by (simp add: maxUint64_def)
  with assms digit_char [OF assms(1,2)] show ?thesis by simp
qed

lemma ParseUint_loop_showNat:
  "0 \<le> n \<Longrightarrow> 0 \<le> acc \<Longrightarrow> acc * 10 ^ length (showNat n) + n \<le> maxUint64 \<Longrightarrow>
     ParseUint_loop (showNat n @ rest) acc
       = ParseUint_loop rest (acc * 10 ^ length (showNat n) + n)"
proof (induction n arbitrary: acc rest rule: showNat.induct)
  case (1 n)
  show ?case
  proof (cases "n < 10")
    case True
    then have s: "showNat n = [char_of (48 + n)]" by (simp add: showNat.simps)
    from "1.prems" True
    have "ParseUint_loop (char_of (48 + n) # rest) acc = ParseUint_loop rest (acc * 10 + n)"
      by (intro ParseUint_loop_digit) (simp_all add: s)
    then show ?thesis unfolding s by (simp del: ParseUint_loop.simps)
  next
    case False
    let ?q = "n div 10" and ?d = "n mod 10"
    let ?k = "length (showNat ?q)"
    from False have s: "showNat n = showNat ?q @ [char_of (48 + ?d)]"
      by (subst showNat.simps) simp
    have q0: "0 \<le> ?q" using "1.prems"(1) by simp
    have n: "n = ?q * 10 + ?d" by simp
    have bound: "(acc * 10 ^ ?k + ?q) * 10 + ?d = acc * 10 ^ length (showNat n) + n"
      unfolding s by (simp add: algebra_simps)
    have d: "0 \<le> ?d" "?d < 10" by simp_all
    have acc': "0 \<le> acc * 10 ^ ?k + ?q" using "1.prems"(2) q0 by simp
    have le: "acc * 10 ^ ?k + ?q \<le> maxUint64"
    proof -
      define A where "A = acc * 10 ^ ?k + ?q"
      define X where "X = acc * 10 ^ length (showNat n) + n"
      have "0 \<le> A" "A * 10 + ?d = X" "X \<le> maxUint64"
        using acc' bound "1.prems"(3) by (simp_all only: A_def X_def)
      with d(1) have "A \<le> maxUint64" by linarith
      then show ?thesis by (simp only: A_def)
    qed
    have "ParseUint_loop (showNat n @ rest) acc
        = ParseUint_loop (showNat ?q @ (char_of (48 + ?d) # rest)) acc"
      unfolding s by (simp del: ParseUint_loop.simps)
    also have "\<dots> = ParseUint_loop (char_of (48 + ?d) # rest) (acc * 10 ^ ?k + ?q)"
      using False q0 "1.prems"(2) le by (intro "1.IH") simp_all
    also have "\<dots> = ParseUint_loop rest ((acc * 10 ^ ?k + ?q) * 10 + ?d)"
    proof (rule ParseUint_loop_digit [OF d acc'])
      show "(acc * 10 ^ ?k + ?q) * 10 + ?d \<le> maxUint64"
        using "1.prems"(3) by (simp only: bound)
    qed
    finally show ?thesis unfolding bound .
  qed
qed

lemma showNat_first:
  "0 \<le> n \<Longrightarrow> showNat n \<noteq> [] \<and> isDigit (hd (showNat n))"
proof (induction n rule: showNat.induct)
  case (1 n)
  show ?case
  proof (cases "n < 10")
    case True
    with "1.prems" digit_char(1) [of n] show ?thesis by (simp add: showNat.simps)
  next
    case False
    with "1.prems" have "showNat (n div 10) \<noteq> [] \<and> isDigit (hd (showNat (n div 10)))"
      by (intro "1.IH") simp_all
    with False show ?thesis by (subst (1 2) showNat.simps) simp
  qed
qed

lemma isDigit_not_sign: "isDigit c \<Longrightarrow> c \<noteq> CHR ''+'' \<and> c \<noteq> CHR ''-''"
  by (auto simp: isDigit_def)

lemma Atoi_showNat:
  assumes "0 \<le> n" "n < 2 ^ 63"
  shows "Atoi (showNat n) = (n, None)"
proof -
  from showNat_first [OF assms(1)] have ne: "showNat n \<noteq> []"
    and dg: "isDigit (hd (showNat n))" by simp_all
  from isDigit_not_sign [OF dg] have sg: "hd (showNat n) \<noteq> CHR ''+''" "hd (showNat n) \<noteq> CHR ''-''"
    by simp_all
  from assms have "0 * 10 ^ length (showNat n) + n \<le> maxUint64" by (simp add: maxUint64_def)
  from ParseUint_loop_showNat [OF assms(1) _ this, of "[]"]
  have "ParseUint (showNat n) = (n, None)" using ne by (simp add: ParseUint_def)
  with ne sg assms show ?thesis by (simp add: Atoi_def ParseInt_def)
qed

subsection \<open>Evaluation on the concrete inputs\<close>

lemma Atoi_21612681: "Atoi ''21612681'' = (21612681, None)"
  by code_simp

lemma Atoi_21612700: "Atoi ''21612700'' = (21612700, None)"
  by code_simp

lemma Atoi_21612701: "Atoi ''21612701'' = (21612701, None)"
  by code_simp

lemma LoadLocation_ref_env: "LoadLocation (ref_env r) = Some ref_render"
  by (simp add: ref_env_def)

lemma FormatSwap_swap1:
  "FormatSwap (ref_env r) swap1
     = Inr ''2023-11-15 06:13:20  2.00000 WBTC -> 1.00000 UNIBTC Vol: $200000.00''"
  by code_simp

lemma FormatSwap_swap2:
  "FormatSwap (ref_env r) swap2
     = Inr ''2023-11-15 06:13:32  3.00000 UNIBTC -> 2.99000 WBTC Vol: $300000.00''"
  by code_simp

lemma FormatSwap_swap_bad: "FormatSwap (ref_env r) swap_bad = Inl NilDereference"
  by code_simp

lemma fetchSwaps_remote:
  "fetchSwaps (ref_env remote) world0
     = Some (world0\<lparr>requests := [(21612681, Page [swap2, swap1])]\<rparr>, [swap2, swap1], None)"
  unfolding fetchSwaps_def
  by (subst fetchSwaps_loop.simps)
     (simp add: Let_def Atoi_21612681 ref_env_def remote_def world0_def pageSize_def
        getLastBlockNumber_def defaultConfig_def)

lemma fetchSwaps_remote_bad:
  "fetchSwaps (ref_env remote_bad) world0
     = Some (world0\<lparr>requests := [(21612681, Page [swap_bad])]\<rparr>, [swap_bad], None)"
  unfolding fetchSwaps_def
  by (subst fetchSwaps_loop.simps)
     (simp add: Let_def Atoi_21612681 ref_env_def remote_bad_def world0_def pageSize_def
        getLastBlockNumber_def defaultConfig_def)

subsection \<open>The formatter\<close>

lemma FormatSwap_nil_amount0:
  "Float_SetString e (Amount0 swap) = None \<Longrightarrow> FormatSwap e swap = Inl NilDereference"
  by (simp add: FormatSwap_def)

lemma FormatSwap_nil_amount1:
  "Float_SetString e (Amount1 swap) = None \<Longrightarrow> FormatSwap e swap = Inl NilDereference"
  by (simp add: FormatSwap_def Let_def split: option.splits)

lemma FormatSwap_bad_timestamp:
  "FormatSwap e swap = Inr message \<Longrightarrow> snd (ParseInt (BlockTimestamp swap)) \<noteq> None
     \<Longrightarrow> message = ''''"
  by (auto simp: FormatSwap_def Let_def
      split: option.splits sum.splits prod.splits if_splits)



text \<open>
  \<^bold>\<open>C5.\<close> A record whose \<open>amount0\<close> does not parse is not skipped. \<open>SetString\<close> returns
  \<open>nil\<close>, \<open>FormatSwap\<close> calls \<open>Sign\<close> on it and panics; the panic leaves
  \<open>sendNotification\<close> and \<open>GraphTask\<close> without a return value, after the fetch and before
  the checkpoint. (A malformed timestamp is skipped, and a malformed \<open>btcPrice\<close> falls
  back to the default price: lemma \<open>FormatSwap_bad_timestamp\<close> and the definition.)
\<close>

theorem malformed_amount_panics:
  "FormatSwap (ref_env remote_bad) swap_bad = Inl NilDereference
   \<and> GraphTask (ref_env remote_bad) world0
       = Some (world0\<lparr>requests := [(21612681, Page [swap_bad])]\<rparr>, Inl NilDereference)"
proof
  show "FormatSwap (ref_env remote_bad) swap_bad = Inl NilDereference"
    by (rule FormatSwap_swap_bad)
  show "GraphTask (ref_env remote_bad) world0
       = Some (world0\<lparr>requests := [(21612681, Page [swap_bad])]\<rparr>, Inl NilDereference)"
    by (simp add: GraphTask_def fetchSwaps_remote_bad sendNotification_def
          FormatSwap_swap_bad LoadLocation_ref_env getCurrentTxHashes_def)
       (simp add: world0_def defaultConfig_def swap_bad_def)
qed

subsection \<open>The notification loop\<close>

lemma GraphTask_loop_sent:
  "\<exists>new. fst (GraphTask_loop e swaps acc w) = w\<lparr>sent := sent w @ new\<rparr>
       \<and> (\<forall>x \<in> set new. fst x \<in> TransactionHash ` set swaps
                          \<and> fst x \<notin> set (getCurrentTxHashes w))"
proof (induction swaps arbitrary: acc w)
  case Nil
  show ?case by (rule exI [of _ "[]"]) simp
next
  case (Cons swap swaps)
  show ?case
  proof (cases "contains (getCurrentTxHashes w) (TransactionHash swap)")
    case True
    from Cons.IH [of acc w] obtain new where
      "fst (GraphTask_loop e swaps acc w) = w\<lparr>sent := sent w @ new\<rparr>"
      "\<forall>x \<in> set new. fst x \<in> TransactionHash ` set swaps
                     \<and> fst x \<notin> set (getCurrentTxHashes w)"
      by blast
    with True show ?thesis by (intro exI [of _ new]) auto
  next
    case False
    let ?d = "deliveries e (getBarkAPIURLs w) swap"
    let ?w' = "w\<lparr>sent := sent w @ ?d\<rparr>"
    have cur: "getCurrentTxHashes ?w' = getCurrentTxHashes w"
      by (simp add: getCurrentTxHashes_def)
    have d: "\<forall>x \<in> set ?d. fst x = TransactionHash swap"
      by (auto dest: deliveries_hash)
    have notin: "TransactionHash swap \<notin> set (getCurrentTxHashes w)"
      using False by (simp add: contains_iff)
    show ?thesis
    proof (cases rule: sendNotification_cases [of e swap w])
      case (1 p)
      with False d notin show ?thesis
        by (intro exI [of _ ?d]) auto
    next
      case 2
      from Cons.IH [of "acc @ [TransactionHash swap]" ?w'] obtain new where
        n: "fst (GraphTask_loop e swaps (acc @ [TransactionHash swap]) ?w')
              = ?w'\<lparr>sent := sent ?w' @ new\<rparr>"
        "\<forall>x \<in> set new. fst x \<in> TransactionHash ` set swaps
                       \<and> fst x \<notin> set (getCurrentTxHashes ?w')"
        by blast
      with 2 False d notin cur show ?thesis
        by (intro exI [of _ "?d @ new"]) auto
    qed
  qed
qed

lemma GraphTask_loop_hashes:
  "GraphTask_loop e swaps acc w = (w', Inr hs) \<Longrightarrow>
     hs = acc @ map TransactionHash
                 (filter (\<lambda>sw. \<not> contains (getCurrentTxHashes w) (TransactionHash sw)) swaps)"
proof (induction swaps arbitrary: acc w)
  case Nil
  then show ?case by simp
next
  case (Cons swap swaps)
  show ?case
  proof (cases "contains (getCurrentTxHashes w) (TransactionHash swap)")
    case True
    with Cons show ?thesis by simp
  next
    case False
    let ?w' = "w\<lparr>sent := sent w @ deliveries e (getBarkAPIURLs w) swap\<rparr>"
    have cur: "getCurrentTxHashes ?w' = getCurrentTxHashes w"
      by (simp add: getCurrentTxHashes_def)
    show ?thesis
    proof (cases rule: sendNotification_cases [of e swap w])
      case (1 p)
      with False Cons.prems show ?thesis by simp
    next
      case 2
      with False Cons.prems
      have "GraphTask_loop e swaps (acc @ [TransactionHash swap]) ?w' = (w', Inr hs)"
        by simp
      from Cons.IH [OF this] False cur show ?thesis by simp
    qed
  qed
qed

lemma GraphTask_loop_storage_sent:
  "\<exists>new. fst (GraphTask_loop_storage e swaps acc w) = w\<lparr>sent := sent w @ new\<rparr>
       \<and> (\<forall>x \<in> set new. fst x \<in> TransactionHash ` set swaps
                          \<and> fst x \<notin> set (CurrentTxHashes_storage (storageData w)))"
proof (induction swaps arbitrary: acc w)
  case Nil
  show ?case by (rule exI [of _ "[]"]) simp
next
  case (Cons swap swaps)
  let ?cur = "CurrentTxHashes_storage (storageData w)"
  show ?case
  proof (cases "contains ?cur (TransactionHash swap)")
    case True
    from Cons.IH [of acc w] obtain new where
      "fst (GraphTask_loop_storage e swaps acc w) = w\<lparr>sent := sent w @ new\<rparr>"
      "\<forall>x \<in> set new. fst x \<in> TransactionHash ` set swaps \<and> fst x \<notin> set ?cur"
      by blast
    with True show ?thesis by (intro exI [of _ new]) auto
  next
    case False
    let ?d = "deliveries e barkAPIURLs swap"
    let ?w' = "w\<lparr>sent := sent w @ ?d\<rparr>"
    have d: "\<forall>x \<in> set ?d. fst x = TransactionHash swap"
      by (auto dest: deliveries_hash)
    have notin: "TransactionHash swap \<notin> set ?cur"
      using False by (simp add: contains_iff)
    show ?thesis
    proof (cases rule: sendNotification_storage_cases [of e swap w])
      case (1 p)
      with False d notin show ?thesis
        by (intro exI [of _ ?d]) auto
    next
      case 2
      from Cons.IH [of "acc @ [TransactionHash swap]" ?w'] obtain new where
        n: "fst (GraphTask_loop_storage e swaps (acc @ [TransactionHash swap]) ?w')
              = ?w'\<lparr>sent := sent ?w' @ new\<rparr>"
        "\<forall>x \<in> set new. fst x \<in> TransactionHash ` set swaps
                       \<and> fst x \<notin> set (CurrentTxHashes_storage (storageData ?w'))"
        by blast
      with 2 False d notin show ?thesis
        by (intro exI [of _ "?d @ new"]) auto
    qed
  qed
qed

lemma GraphTask_loop_storage_hashes:
  "GraphTask_loop_storage e swaps acc w = (w', Inr hs) \<Longrightarrow>
     hs = acc @ map TransactionHash
                 (filter (\<lambda>sw. \<not> contains (CurrentTxHashes_storage (storageData w))
                                    (TransactionHash sw)) swaps)"
proof (induction swaps arbitrary: acc w)
  case Nil
  then show ?case by simp
next
  case (Cons swap swaps)
  show ?case
  proof (cases "contains (CurrentTxHashes_storage (storageData w)) (TransactionHash swap)")
    case True
    with Cons show ?thesis by simp
  next
    case False
    let ?w' = "w\<lparr>sent := sent w @ deliveries e barkAPIURLs swap\<rparr>"
    show ?thesis
    proof (cases rule: sendNotification_storage_cases [of e swap w])
      case (1 p)
      with False Cons.prems show ?thesis by simp
    next
      case 2
      with False Cons.prems
      have "GraphTask_loop_storage e swaps (acc @ [TransactionHash swap]) ?w' = (w', Inr hs)"
        by simp
      from Cons.IH [OF this] False show ?thesis by simp
    qed
  qed
qed

subsection \<open>The fetch loop\<close>

lemma fetchSwaps_loop_trace:
  assumes "fetchSwaps_loop e reqs c all = Some y"
  shows "(\<forall>reqs' res. y = (reqs', res, None) \<longrightarrow>
            (\<exists>tr. reqs' = reqs @ tr \<and> answered e (length reqs) tr \<and> paginated c tr
                 \<and> res = all @ pages tr))
         \<and> (\<forall>reqs' res err. y = (reqs', res, Some err) \<longrightarrow> res = [])"
  using assms
proof (induct e reqs c all y
    rule: fetchSwaps_loop.raw_induct [rotated 1, consumes 1, case_names step])
  case (step loop e reqs c all y)
  let ?r = "api e (length reqs) pageSize c"
  show ?case
  proof (cases ?r)
    case (Failure err)
    with step(2) show ?thesis by (auto simp: Let_def)
  next
    case (Page p)
    show ?thesis
    proof (cases "length p < pageSize")
      case True
      with Page step(2) show ?thesis
        by (auto simp: Let_def split: if_splits intro!: exI [of _ "[(c, Page p)]"])
    next
      case False
      then have ne: "p \<noteq> []" by (auto simp: pageSize_def)
      let ?c' = "fst (Atoi (BlockNumber (last p)))"
      from False Page step(2) ne
      have rec: "loop e (reqs @ [(c, Page p)]) ?c' (all @ p) = Some y"
        by (simp add: Let_def last_conv_nth)
      note ih = step(1) [OF rec]
      show ?thesis
      proof (intro conjI allI impI)
        fix reqs' res assume y: "y = (reqs', res, None)"
        with ih obtain tr where tr: "reqs' = (reqs @ [(c, Page p)]) @ tr"
          "answered e (length (reqs @ [(c, Page p)])) tr" "paginated ?c' tr"
          "res = (all @ p) @ pages tr" by blast
        show "\<exists>tr. reqs' = reqs @ tr \<and> answered e (length reqs) tr \<and> paginated c tr
                 \<and> res = all @ pages tr"
          using tr False Page by (intro exI [of _ "(c, Page p) # tr"]) simp
      next
        fix reqs' res err assume "y = (reqs', res, Some err)"
        with ih show "res = []" by blast
      qed
    qed
  qed
qed

lemma fetchSwaps_loop_run:
  "answered e (length reqs) tr \<Longrightarrow> paginated c tr \<Longrightarrow>
     fetchSwaps_loop e reqs c all = Some (reqs @ tr, all @ pages tr, None)"
proof (induction tr arbitrary: reqs c all)
  case Nil
  then show ?case by simp
next
  case (Cons x tr)
  obtain c' r where x: "x = (c', r)" by (cases x)
  from Cons.prems(1) have r: "r = api e (length reqs) pageSize c'"
    and a: "answered e (Suc (length reqs)) tr" unfolding x by simp_all
  from Cons.prems(2) have pg: "paginated c ((c', r) # tr)" unfolding x .
  show ?case
  proof (cases r)
    case (Failure err)
    with pg show ?thesis by simp
  next
    case (Page p)
    with pg have c': "c' = c" by simp
    have api: "api e (length reqs) pageSize c = Page p"
      using r Page c' by simp
    show ?thesis
    proof (cases "length p < pageSize")
      case True
      with pg Page have "tr = []" by simp
      with True api show ?thesis unfolding x Page c'
        by (subst fetchSwaps_loop.simps) (simp add: Let_def)
    next
      case False
      then have ne: "p \<noteq> []" by (auto simp: pageSize_def)
      from pg Page False
      have pg': "paginated (fst (Atoi (BlockNumber (last p)))) tr" by simp
      from a have a': "answered e (length (reqs @ [(c, Page p)])) tr" by simp
      from Cons.IH [OF a' pg', of "all @ p"] False api ne show ?thesis unfolding x Page c'
        by (subst fetchSwaps_loop.simps) (simp add: Let_def last_conv_nth)
    qed
  qed
qed

lemma fetchSwaps_loop_storage_trace:
  assumes "fetchSwaps_loop_storage e reqs c all = Some y"
  shows "(\<forall>reqs' res. y = (reqs', res, None) \<longrightarrow>
            (\<exists>tr. reqs' = reqs @ tr \<and> answered e (length reqs) tr \<and> paginated_storage c tr
                 \<and> res = all @ pages tr))
         \<and> (\<forall>reqs' res err. y = (reqs', res, Some err) \<longrightarrow> res = [])"
  using assms
proof (induct e reqs c all y
    rule: fetchSwaps_loop_storage.raw_induct [rotated 1, consumes 1, case_names step])
  case (step loop e reqs c all y)
  let ?r = "api e (length reqs) pageSize c"
  show ?case
  proof (cases ?r)
    case (Failure err)
    with step(2) show ?thesis by (auto simp: Let_def)
  next
    case (Page p)
    show ?thesis
    proof (cases "p = []")
      case True
      with Page step(2) show ?thesis
        by (auto simp: Let_def intro!: exI [of _ "[(c, Page p)]"])
    next
      case ne: False
      obtain n err where at: "Atoi (BlockNumber (last p)) = (n, err)"
        by (cases "Atoi (BlockNumber (last p))")
      show ?thesis
      proof (cases err)
        case (Some er)
        with Page step(2) ne at show ?thesis
          by (auto simp: Let_def last_conv_nth)
      next
        case None
        show ?thesis
        proof (cases "length p < pageSize")
          case True
          with Page step(2) ne at None show ?thesis
            by (auto simp: Let_def last_conv_nth intro!: exI [of _ "[(c, Page p)]"])
        next
          case False
          from False Page step(2) ne at None
          have rec: "loop e (reqs @ [(c, Page p)]) n (all @ p) = Some y"
            by (simp add: Let_def last_conv_nth)
          note ih = step(1) [OF rec]
          show ?thesis
          proof (intro conjI allI impI)
            fix reqs' res assume y: "y = (reqs', res, None)"
            with ih obtain tr where tr: "reqs' = (reqs @ [(c, Page p)]) @ tr"
              "answered e (length (reqs @ [(c, Page p)])) tr" "paginated_storage n tr"
              "res = (all @ p) @ pages tr" by blast
            show "\<exists>tr. reqs' = reqs @ tr \<and> answered e (length reqs) tr
                     \<and> paginated_storage c tr \<and> res = all @ pages tr"
              using tr False Page ne at None by (intro exI [of _ "(c, Page p) # tr"]) simp
          next
            fix reqs' res err assume "y = (reqs', res, Some err)"
            with ih show "res = []" by blast
          qed
        qed
      qed
    qed
  qed
qed

lemma fetchSwaps_loop_storage_run:
  "answered e (length reqs) tr \<Longrightarrow> paginated_storage c tr \<Longrightarrow>
     fetchSwaps_loop_storage e reqs c all = Some (reqs @ tr, all @ pages tr, None)"
proof (induction tr arbitrary: reqs c all)
  case Nil
  then show ?case by simp
next
  case (Cons x tr)
  obtain c' r where x: "x = (c', r)" by (cases x)
  from Cons.prems(1) have r: "r = api e (length reqs) pageSize c'"
    and a: "answered e (Suc (length reqs)) tr" unfolding x by simp_all
  from Cons.prems(2) have pg: "paginated_storage c ((c', r) # tr)" unfolding x .
  show ?case
  proof (cases r)
    case (Failure err)
    with pg show ?thesis by simp
  next
    case (Page p)
    with pg have c': "c' = c" by simp
    have api: "api e (length reqs) pageSize c = Page p"
      using r Page c' by simp
    show ?thesis
    proof (cases "p = []")
      case True
      with pg Page have "tr = []" by simp
      with True api show ?thesis unfolding x Page c'
        by (subst fetchSwaps_loop_storage.simps) (simp add: Let_def)
    next
      case ne: False
      obtain n err where at: "Atoi (BlockNumber (last p)) = (n, err)"
        by (cases "Atoi (BlockNumber (last p))")
      with pg Page ne have err: "err = None" by (cases err) simp_all
      show ?thesis
      proof (cases "length p < pageSize")
        case True
        with pg Page ne at err have "tr = []" by simp
        with True api ne at err show ?thesis unfolding x Page c'
          by (subst fetchSwaps_loop_storage.simps) (simp add: Let_def last_conv_nth)
      next
        case False
        from pg Page False ne at err
        have pg': "paginated_storage n tr" by simp
        from a have a': "answered e (length (reqs @ [(c, Page p)])) tr" by simp
        from Cons.IH [OF a' pg', of "all @ p"] False api ne at err show ?thesis
          unfolding x Page c'
          by (subst fetchSwaps_loop_storage.simps) (simp add: Let_def last_conv_nth)
      qed
    qed
  qed
qed

lemma paginated_first_page:
  "answered e k tr \<Longrightarrow> paginated c tr \<Longrightarrow> pages tr \<noteq> [] \<Longrightarrow>
     \<exists>p rest. api e k pageSize c = Page p \<and> p \<noteq> [] \<and> pages tr = p @ rest"
proof (cases tr)
  case Nil
  assume "pages tr \<noteq> []" with Nil show ?thesis by simp
next
  case (Cons x tr')
  assume a: "answered e k tr" and pg: "paginated c tr" and ne: "pages tr \<noteq> []"
  obtain c' r where x: "x = (c', r)" by (cases x)
  from pg Cons x obtain p where r: "r = Page p" and c': "c' = c" by (cases r) auto
  from a Cons x r c' have api: "api e k pageSize c = Page p" by simp
  show ?thesis
  proof (cases "p = []")
    case True
    with pg Cons x r have "tr' = []" by (simp add: pageSize_def)
    with ne Cons x r True show ?thesis by simp
  next
    case False
    with api Cons x r show ?thesis by (intro exI [of _ p] exI [of _ "pages tr'"]) simp
  qed
qed

lemma paginated_storage_first_page:
  "answered e k tr \<Longrightarrow> paginated_storage c tr \<Longrightarrow> pages tr \<noteq> [] \<Longrightarrow>
     \<exists>p rest. api e k pageSize c = Page p \<and> p \<noteq> [] \<and> pages tr = p @ rest"
proof (cases tr)
  case Nil
  assume "pages tr \<noteq> []" with Nil show ?thesis by simp
next
  case (Cons x tr')
  assume a: "answered e k tr" and pg: "paginated_storage c tr" and ne: "pages tr \<noteq> []"
  obtain c' r where x: "x = (c', r)" by (cases x)
  from pg Cons x obtain p where r: "r = Page p" and c': "c' = c" by (cases r) auto
  from a Cons x r c' have api: "api e k pageSize c = Page p" by simp
  show ?thesis
  proof (cases "p = []")
    case True
    with pg Cons x r have "tr' = []" by simp
    with ne Cons x r True show ?thesis by simp
  next
    case False
    with api Cons x r show ?thesis by (intro exI [of _ p] exI [of _ "pages tr'"]) simp
  qed
qed

subsection \<open>One pass, \<open>graph_task.go\<close>\<close>

lemma fetchSwaps_cases:
  assumes "fetchSwaps e w = Some (w1, swaps, err)"
  obtains reqs where "w1 = w\<lparr>requests := reqs\<rparr>"
    and "fetchSwaps_loop e (requests w) (fst (Atoi (getLastBlockNumber w))) []
           = Some (reqs, swaps, err)"
  using assms by (auto simp: fetchSwaps_def Let_def split: option.splits)

lemma fetchSwaps_error_nil:
  assumes "fetchSwaps e w = Some (w1, swaps, Some err)" shows "swaps = []"
proof -
  from assms obtain reqs where
    "fetchSwaps_loop e (requests w) (fst (Atoi (getLastBlockNumber w))) []
       = Some (reqs, swaps, Some err)"
    by (rule fetchSwaps_cases)
  from fetchSwaps_loop_trace [OF this] show ?thesis by blast
qed

lemma fetchSwaps_first_page:
  assumes "fetchSwaps e w = Some (w1, swaps, None)" and "swaps \<noteq> []"
  shows "\<exists>p rest. api e (length (requests w)) pageSize (fst (Atoi (getLastBlockNumber w)))
                    = Page p \<and> p \<noteq> [] \<and> swaps = p @ rest"
proof -
  from assms(1) obtain reqs where
    l: "fetchSwaps_loop e (requests w) (fst (Atoi (getLastBlockNumber w))) []
       = Some (reqs, swaps, None)"
    by (rule fetchSwaps_cases)
  from fetchSwaps_loop_trace [OF l] obtain tr where
    "answered e (length (requests w)) tr"
    "paginated (fst (Atoi (getLastBlockNumber w))) tr" "swaps = pages tr"
    by auto
  with assms(2) paginated_first_page [of e "length (requests w)" tr] show ?thesis
    by auto
qed

lemma GraphTask_fetch_error:
  "fetchSwaps e w = Some (w1, swaps, Some err) \<Longrightarrow>
     GraphTask e w = Some (w1\<lparr>slept := slept w1 + 3\<rparr>, Inr (Some err))"
  by (simp add: GraphTask_def)

lemma GraphTask_fetch_empty:
  "fetchSwaps e w = Some (w1, [], None) \<Longrightarrow> GraphTask e w = Some (w1, Inr None)"
  by (simp add: GraphTask_def)

lemma GraphTask_fetch_swaps:
  "fetchSwaps e w = Some (w1, swaps, None) \<Longrightarrow> swaps \<noteq> [] \<Longrightarrow>
     GraphTask e w =
       (case GraphTask_loop e swaps [] w1 of
          (w2, Inl p) \<Rightarrow> Some (w2, Inl p)
        | (w2, Inr newTxHashes) \<Rightarrow>
            Some (saveConfig e
                    (setCurrentTxHashes newTxHashes
                       (setLastBlockNumber (BlockNumber (hd swaps)) w2)),
                  Inr None))"
  by (simp add: GraphTask_def hd_conv_nth split: prod.splits sum.splits)

lemma saveConfig_frame:
  "configData (saveConfig e w) = configData w" "sent (saveConfig e w) = sent w"
  "requests (saveConfig e w) = requests w" "slept (saveConfig e w) = slept w"
  by (simp_all add: saveConfig_def)

lemma GraphTask_sent:
  assumes "GraphTask e w = Some (w', r)"
  shows "\<exists>new. sent w' = sent w @ new
           \<and> (\<forall>x \<in> set new. fst x \<notin> set (getCurrentTxHashes w))"
proof -
  from assms obtain w1 swaps err where f: "fetchSwaps e w = Some (w1, swaps, err)"
    by (cases "fetchSwaps e w") (auto simp: GraphTask_def)
  then obtain reqs where w1: "w1 = w\<lparr>requests := reqs\<rparr>" by (rule fetchSwaps_cases)
  show ?thesis
  proof (cases err)
    case (Some er)
    with f assms w1 show ?thesis by (auto simp: GraphTask_fetch_error)
  next
    case None
    show ?thesis
    proof (cases "swaps = []")
      case True
      with f None assms w1 show ?thesis by (auto simp: GraphTask_fetch_empty)
    next
      case False
      obtain new where new: "fst (GraphTask_loop e swaps [] w1) = w1\<lparr>sent := sent w1 @ new\<rparr>"
        "\<forall>x \<in> set new. fst x \<notin> set (getCurrentTxHashes w1)"
        using GraphTask_loop_sent [of e swaps "[]" w1] by blast
      have cur: "getCurrentTxHashes w1 = getCurrentTxHashes w"
        by (simp add: w1 getCurrentTxHashes_def)
      from f None False assms have
        "sent w' = sent (fst (GraphTask_loop e swaps [] w1))"
        by (auto simp: GraphTask_fetch_swaps saveConfig_frame setCurrentTxHashes_def
              setLastBlockNumber_def split: prod.splits sum.splits)
      with new cur w1 show ?thesis by (intro exI [of _ new]) simp
    qed
  qed
qed

lemma saveConfig_file:
  "canCreate e \<Longrightarrow> canEncode e \<Longrightarrow> configFile (saveConfig e w) = Some (Document (configData w))"
  by (simp add: saveConfig_def)

lemma GraphTask_loop_world:
  "GraphTask_loop e swaps acc w = (w2, r) \<Longrightarrow> \<exists>new. w2 = w\<lparr>sent := sent w @ new\<rparr>"
  using GraphTask_loop_sent [of e swaps acc w] by auto

lemma pass_error_config:
  assumes "fetchSwaps e w = Some (w1, swaps, Some err)"
  shows "swaps = [] \<and>
         (\<exists>w'. GraphTask e w = Some (w', Inr (Some err)) \<and> configData w' = configData w
              \<and> configFile w' = configFile w \<and> sent w' = sent w)"
proof -
  from assms obtain reqs where w1: "w1 = w\<lparr>requests := reqs\<rparr>" by (rule fetchSwaps_cases)
  from assms have "swaps = []" by (rule fetchSwaps_error_nil)
  moreover from assms have "GraphTask e w = Some (w1\<lparr>slept := slept w1 + 3\<rparr>, Inr (Some err))"
    by (rule GraphTask_fetch_error)
  ultimately show ?thesis using w1 by simp
qed

lemma pass_checkpoint_config:
  assumes f: "fetchSwaps e w = Some (w1, swaps, None)" and ne: "swaps \<noteq> []"
    and g: "GraphTask e w = Some (w', Inr r)"
  shows "r = None \<and>
         configData w' = (configData w)
           \<lparr>LastBlockNumber := BlockNumber (hd swaps),
            CurrentTxHashes :=
              map TransactionHash
                (filter (\<lambda>sw. TransactionHash sw \<notin> set (CurrentTxHashes (configData w))) swaps)\<rparr> \<and>
         (\<exists>w2. w' = saveConfig e w2 \<and> configData w2 = configData w') \<and>
         (canCreate e \<and> canEncode e \<longrightarrow> configFile w' = Some (Document (configData w')))"
proof -
  from f obtain reqs where w1: "w1 = w\<lparr>requests := reqs\<rparr>" by (rule fetchSwaps_cases)
  obtain w2 lr where l: "GraphTask_loop e swaps [] w1 = (w2, lr)"
    by (cases "GraphTask_loop e swaps [] w1")
  from GraphTask_fetch_swaps [OF f ne] g l obtain hs where lr: "lr = Inr hs"
    and w': "w' = saveConfig e (setCurrentTxHashes hs
                     (setLastBlockNumber (BlockNumber (hd swaps)) w2))"
    and r: "r = None"
    by (cases lr) auto
  from l lr have hs: "hs = map TransactionHash
      (filter (\<lambda>sw. \<not> contains (getCurrentTxHashes w1) (TransactionHash sw)) swaps)"
    using GraphTask_loop_hashes [of e swaps "[]" w1 w2 hs] by simp
  from l obtain new where w2: "w2 = w1\<lparr>sent := sent w1 @ new\<rparr>"
    using GraphTask_loop_world by blast
  let ?w3 = "setCurrentTxHashes hs (setLastBlockNumber (BlockNumber (hd swaps)) w2)"
  have c3: "configData ?w3 = (configData w)
           \<lparr>LastBlockNumber := BlockNumber (hd swaps),
            CurrentTxHashes :=
              map TransactionHash
                (filter (\<lambda>sw. TransactionHash sw \<notin> set (CurrentTxHashes (configData w))) swaps)\<rparr>"
    by (simp add: setCurrentTxHashes_def setLastBlockNumber_def w2 w1 hs
          getCurrentTxHashes_def contains_iff)
  have c': "configData w' = configData ?w3" by (simp add: w' saveConfig_frame)
  show ?thesis
  proof (intro conjI impI)
    show "r = None" by (rule r)
    show "configData w' = (configData w)
           \<lparr>LastBlockNumber := BlockNumber (hd swaps),
            CurrentTxHashes :=
              map TransactionHash
                (filter (\<lambda>sw. TransactionHash sw \<notin> set (CurrentTxHashes (configData w))) swaps)\<rparr>"
      using c' c3 by simp
    show "\<exists>w2. w' = saveConfig e w2 \<and> configData w2 = configData w'"
      using w' c' by (intro exI [of _ ?w3]) simp
    show "configFile w' = Some (Document (configData w'))" if "canCreate e \<and> canEncode e"
      using that c' by (simp add: w' saveConfig_file)
  qed
qed

lemma pass_outcomes_config:
  assumes g: "GraphTask e w = Some (w', r)"
  shows "(configData w' = configData w \<and> configFile w' = configFile w)
         \<or> (\<exists>w1 swaps. fetchSwaps e w = Some (w1, swaps, None) \<and> swaps \<noteq> [] \<and> r = Inr None)"
proof -
  from g obtain w1 swaps err where f: "fetchSwaps e w = Some (w1, swaps, err)"
    by (cases "fetchSwaps e w") (auto simp: GraphTask_def)
  then obtain reqs where w1: "w1 = w\<lparr>requests := reqs\<rparr>" by (rule fetchSwaps_cases)
  show ?thesis
  proof (cases err)
    case (Some er)
    with f g w1 show ?thesis by (auto simp: GraphTask_fetch_error)
  next
    case None
    show ?thesis
    proof (cases "swaps = []")
      case True
      with f None g w1 show ?thesis by (auto simp: GraphTask_fetch_empty)
    next
      case False
      obtain w2 lr where l: "GraphTask_loop e swaps [] w1 = (w2, lr)"
        by (cases "GraphTask_loop e swaps [] w1")
      then obtain new where w2: "w2 = w1\<lparr>sent := sent w1 @ new\<rparr>"
        using GraphTask_loop_world by blast
      show ?thesis
      proof (cases lr)
        case (Inl p)
        with f None False g l w2 w1 show ?thesis
          by (auto simp: GraphTask_fetch_swaps)
      next
        case (Inr hs)
        with f None False g l show ?thesis
          by (auto simp: GraphTask_fetch_swaps)
      qed
    qed
  qed
qed

lemma pass_monotone_config:
  assumes rf: "respects_filter e" and g: "GraphTask e w = Some (w', r)"
  shows "fst (Atoi (getLastBlockNumber w)) \<le> fst (Atoi (getLastBlockNumber w'))"
proof -
  from pass_outcomes_config [OF g] show ?thesis
  proof
    assume "configData w' = configData w \<and> configFile w' = configFile w"
    then show ?thesis by (simp add: getLastBlockNumber_def)
  next
    assume "\<exists>w1 swaps. fetchSwaps e w = Some (w1, swaps, None) \<and> swaps \<noteq> [] \<and> r = Inr None"
    then obtain w1 swaps where f: "fetchSwaps e w = Some (w1, swaps, None)"
      and ne: "swaps \<noteq> []" and r: "r = Inr None" by blast
    from pass_checkpoint_config [OF f ne g [unfolded r]]
    have last: "getLastBlockNumber w' = BlockNumber (hd swaps)"
      by (simp add: getLastBlockNumber_def)
    from fetchSwaps_first_page [OF f ne] obtain p rest where
      p: "api e (length (requests w)) pageSize (fst (Atoi (getLastBlockNumber w))) = Page p"
      "p \<noteq> []" "swaps = p @ rest" by blast
    then have "hd swaps \<in> set p" by simp
    with rf p(1) have "newer (fst (Atoi (getLastBlockNumber w))) (hd swaps)"
      unfolding respects_filter_def by blast
    then show ?thesis unfolding last
      by (auto simp: newer_def split: prod.splits option.splits)
  qed
qed

lemma pass_idle_config:
  assumes f: "fetchSwaps e w = Some (w1, swaps, err)"
    and none: "swaps = [] \<or> (respects_filter e \<and>
                 (\<forall>sw \<in> set swaps. \<not> newer (fst (Atoi (getLastBlockNumber w))) sw))"
  shows "\<exists>w' r. GraphTask e w = Some (w', r) \<and> configData w' = configData w
            \<and> configFile w' = configFile w"
proof -
  from f obtain reqs where w1: "w1 = w\<lparr>requests := reqs\<rparr>" by (rule fetchSwaps_cases)
  have empty: "swaps = []" if "err = None"
  proof (rule ccontr)
    assume ne: "swaps \<noteq> []"
    with none have rf: "respects_filter e"
      and old: "\<forall>sw \<in> set swaps. \<not> newer (fst (Atoi (getLastBlockNumber w))) sw" by auto
    from fetchSwaps_first_page [OF f [unfolded that] ne] obtain p rest where
      p: "api e (length (requests w)) pageSize (fst (Atoi (getLastBlockNumber w))) = Page p"
      "p \<noteq> []" "swaps = p @ rest" by blast
    then have "hd p \<in> set p" "hd p \<in> set swaps" by simp_all
    with rf p(1) old show False unfolding respects_filter_def by blast
  qed
  show ?thesis
  proof (cases err)
    case None
    with empty f have "GraphTask e w = Some (w1, Inr None)"
      by (simp add: GraphTask_fetch_empty)
    with w1 show ?thesis by simp
  next
    case (Some er)
    with f have "GraphTask e w = Some (w1\<lparr>slept := slept w1 + 3\<rparr>, Inr (Some er))"
      by (simp add: GraphTask_fetch_error)
    with w1 show ?thesis by simp
  qed
qed

subsection \<open>One pass, the \<open>storage.json\<close> variant\<close>

lemma fetchSwaps_storage_cases:
  assumes "fetchSwaps_storage e w = Some (w1, swaps, err)"
  obtains reqs where "w1 = w\<lparr>requests := reqs\<rparr>"
    and "fetchSwaps_loop_storage e (requests w) (parseLastBlockNumber w) []
           = Some (reqs, swaps, err)"
  using assms by (auto simp: fetchSwaps_storage_def Let_def split: option.splits)

lemma fetchSwaps_storage_error_nil:
  assumes "fetchSwaps_storage e w = Some (w1, swaps, Some err)" shows "swaps = []"
proof -
  from assms obtain reqs where
    "fetchSwaps_loop_storage e (requests w) (parseLastBlockNumber w) []
       = Some (reqs, swaps, Some err)"
    by (rule fetchSwaps_storage_cases)
  from fetchSwaps_loop_storage_trace [OF this] show ?thesis by blast
qed

lemma fetchSwaps_storage_first_page:
  assumes "fetchSwaps_storage e w = Some (w1, swaps, None)" and "swaps \<noteq> []"
  shows "\<exists>p rest. api e (length (requests w)) pageSize (parseLastBlockNumber w)
                    = Page p \<and> p \<noteq> [] \<and> swaps = p @ rest"
proof -
  from assms(1) obtain reqs where
    l: "fetchSwaps_loop_storage e (requests w) (parseLastBlockNumber w) []
       = Some (reqs, swaps, None)"
    by (rule fetchSwaps_storage_cases)
  from fetchSwaps_loop_storage_trace [OF l] obtain tr where
    "answered e (length (requests w)) tr"
    "paginated_storage (parseLastBlockNumber w) tr" "swaps = pages tr"
    by auto
  with assms(2) paginated_storage_first_page [of e "length (requests w)" tr] show ?thesis
    by auto
qed

lemma GraphTask_storage_fetch_error:
  "fetchSwaps_storage e w = Some (w1, swaps, Some err) \<Longrightarrow>
     GraphTask_storage e w = Some (w1\<lparr>slept := slept w1 + 3\<rparr>, Inr (Some err))"
  by (simp add: GraphTask_storage_def)

lemma GraphTask_storage_fetch_empty:
  "fetchSwaps_storage e w = Some (w1, [], None) \<Longrightarrow>
     GraphTask_storage e w = Some (w1, Inr None)"
  by (simp add: GraphTask_storage_def)

lemma GraphTask_storage_fetch_swaps:
  "fetchSwaps_storage e w = Some (w1, swaps, None) \<Longrightarrow> swaps \<noteq> [] \<Longrightarrow>
     GraphTask_storage e w =
       (case GraphTask_loop_storage e swaps [] w1 of
          (w2, Inl p) \<Rightarrow> Some (w2, Inl p)
        | (w2, Inr newTxHashes) \<Rightarrow>
            Some (saveStorage e
                    (w2\<lparr>storageData :=
                          (storageData w2)
                            \<lparr>LastBlockNumber_storage := BlockNumber (hd swaps),
                             CurrentTxHashes_storage := newTxHashes\<rparr>\<rparr>),
                  Inr None))"
  by (simp add: GraphTask_storage_def hd_conv_nth split: prod.splits sum.splits)

lemma saveStorage_frame:
  "storageData (saveStorage e w) = storageData w" "sent (saveStorage e w) = sent w"
  "requests (saveStorage e w) = requests w" "slept (saveStorage e w) = slept w"
  by (simp_all add: saveStorage_def)

lemma saveStorage_file:
  "canCreate e \<Longrightarrow> canEncode e \<Longrightarrow>
     storageFile (saveStorage e w) = Some (Document (storageData w))"
  by (simp add: saveStorage_def)

lemma GraphTask_loop_storage_world:
  "GraphTask_loop_storage e swaps acc w = (w2, r) \<Longrightarrow> \<exists>new. w2 = w\<lparr>sent := sent w @ new\<rparr>"
  using GraphTask_loop_storage_sent [of e swaps acc w] by auto

lemma GraphTask_storage_sent:
  assumes "GraphTask_storage e w = Some (w', r)"
  shows "\<exists>new. sent w' = sent w @ new
           \<and> (\<forall>x \<in> set new. fst x \<notin> set (CurrentTxHashes_storage (storageData w)))"
proof -
  from assms obtain w1 swaps err where f: "fetchSwaps_storage e w = Some (w1, swaps, err)"
    by (cases "fetchSwaps_storage e w") (auto simp: GraphTask_storage_def)
  then obtain reqs where w1: "w1 = w\<lparr>requests := reqs\<rparr>" by (rule fetchSwaps_storage_cases)
  show ?thesis
  proof (cases err)
    case (Some er)
    with f assms w1 show ?thesis by (auto simp: GraphTask_storage_fetch_error)
  next
    case None
    show ?thesis
    proof (cases "swaps = []")
      case True
      with f None assms w1 show ?thesis by (auto simp: GraphTask_storage_fetch_empty)
    next
      case False
      obtain new where
        new: "fst (GraphTask_loop_storage e swaps [] w1) = w1\<lparr>sent := sent w1 @ new\<rparr>"
        "\<forall>x \<in> set new. fst x \<notin> set (CurrentTxHashes_storage (storageData w1))"
        using GraphTask_loop_storage_sent [of e swaps "[]" w1] by blast
      from f None False assms have
        "sent w' = sent (fst (GraphTask_loop_storage e swaps [] w1))"
        by (auto simp: GraphTask_storage_fetch_swaps saveStorage_frame
              split: prod.splits sum.splits)
      with new w1 show ?thesis by (intro exI [of _ new]) simp
    qed
  qed
qed

lemma pass_error_storage:
  assumes "fetchSwaps_storage e w = Some (w1, swaps, Some err)"
  shows "swaps = [] \<and>
         (\<exists>w'. GraphTask_storage e w = Some (w', Inr (Some err))
              \<and> storageData w' = storageData w
              \<and> storageFile w' = storageFile w \<and> sent w' = sent w)"
proof -
  from assms obtain reqs where w1: "w1 = w\<lparr>requests := reqs\<rparr>"
    by (rule fetchSwaps_storage_cases)
  from assms have "swaps = []" by (rule fetchSwaps_storage_error_nil)
  moreover from assms
  have "GraphTask_storage e w = Some (w1\<lparr>slept := slept w1 + 3\<rparr>, Inr (Some err))"
    by (rule GraphTask_storage_fetch_error)
  ultimately show ?thesis using w1 by simp
qed

lemma pass_checkpoint_storage:
  assumes f: "fetchSwaps_storage e w = Some (w1, swaps, None)" and ne: "swaps \<noteq> []"
    and g: "GraphTask_storage e w = Some (w', Inr r)"
  shows "r = None \<and>
         storageData w' =
           \<lparr>LastBlockNumber_storage = BlockNumber (hd swaps),
            CurrentTxHashes_storage =
              map TransactionHash
                (filter (\<lambda>sw. TransactionHash sw
                                 \<notin> set (CurrentTxHashes_storage (storageData w))) swaps)\<rparr> \<and>
         (\<exists>w2. w' = saveStorage e w2 \<and> storageData w2 = storageData w') \<and>
         (canCreate e \<and> canEncode e \<longrightarrow> storageFile w' = Some (Document (storageData w')))"
proof -
  from f obtain reqs where w1: "w1 = w\<lparr>requests := reqs\<rparr>"
    by (rule fetchSwaps_storage_cases)
  obtain w2 lr where l: "GraphTask_loop_storage e swaps [] w1 = (w2, lr)"
    by (cases "GraphTask_loop_storage e swaps [] w1")
  let ?w3 = "\<lambda>hs. w2\<lparr>storageData :=
                       (storageData w2)
                         \<lparr>LastBlockNumber_storage := BlockNumber (hd swaps),
                          CurrentTxHashes_storage := hs\<rparr>\<rparr>"
  from GraphTask_storage_fetch_swaps [OF f ne] g l obtain hs where lr: "lr = Inr hs"
    and w': "w' = saveStorage e (?w3 hs)"
    and r: "r = None"
    by (cases lr) auto
  from l lr have hs: "hs = map TransactionHash
      (filter (\<lambda>sw. \<not> contains (CurrentTxHashes_storage (storageData w1))
                         (TransactionHash sw)) swaps)"
    using GraphTask_loop_storage_hashes [of e swaps "[]" w1 w2 hs] by simp
  from l obtain new where w2: "w2 = w1\<lparr>sent := sent w1 @ new\<rparr>"
    using GraphTask_loop_storage_world by blast
  have c3: "storageData (?w3 hs) =
           \<lparr>LastBlockNumber_storage = BlockNumber (hd swaps),
            CurrentTxHashes_storage =
              map TransactionHash
                (filter (\<lambda>sw. TransactionHash sw
                                 \<notin> set (CurrentTxHashes_storage (storageData w))) swaps)\<rparr>"
    by (simp add: w2 w1 hs contains_iff)
  have c': "storageData w' = storageData (?w3 hs)" by (simp add: w' saveStorage_frame)
  show ?thesis
  proof (intro conjI impI)
    show "r = None" by (rule r)
    show "storageData w' =
           \<lparr>LastBlockNumber_storage = BlockNumber (hd swaps),
            CurrentTxHashes_storage =
              map TransactionHash
                (filter (\<lambda>sw. TransactionHash sw
                                 \<notin> set (CurrentTxHashes_storage (storageData w))) swaps)\<rparr>"
      using c' c3 by simp
    show "\<exists>w2. w' = saveStorage e w2 \<and> storageData w2 = storageData w'"
      using w' c' by (intro exI [of _ "?w3 hs"]) simp
    show "storageFile w' = Some (Document (storageData w'))" if "canCreate e \<and> canEncode e"
      using that c' by (simp add: w' saveStorage_file)
  qed
qed

lemma pass_outcomes_storage:
  assumes g: "GraphTask_storage e w = Some (w', r)"
  shows "(storageData w' = storageData w \<and> storageFile w' = storageFile w)
         \<or> (\<exists>w1 swaps. fetchSwaps_storage e w = Some (w1, swaps, None) \<and> swaps \<noteq> []
                \<and> r = Inr None)"
proof -
  from g obtain w1 swaps err where f: "fetchSwaps_storage e w = Some (w1, swaps, err)"
    by (cases "fetchSwaps_storage e w") (auto simp: GraphTask_storage_def)
  then obtain reqs where w1: "w1 = w\<lparr>requests := reqs\<rparr>" by (rule fetchSwaps_storage_cases)
  show ?thesis
  proof (cases err)
    case (Some er)
    with f g w1 show ?thesis by (auto simp: GraphTask_storage_fetch_error)
  next
    case None
    show ?thesis
    proof (cases "swaps = []")
      case True
      with f None g w1 show ?thesis by (auto simp: GraphTask_storage_fetch_empty)
    next
      case False
      obtain w2 lr where l: "GraphTask_loop_storage e swaps [] w1 = (w2, lr)"
        by (cases "GraphTask_loop_storage e swaps [] w1")
      then obtain new where w2: "w2 = w1\<lparr>sent := sent w1 @ new\<rparr>"
        using GraphTask_loop_storage_world by blast
      show ?thesis
      proof (cases lr)
        case (Inl p)
        with f None False g l w2 w1 show ?thesis
          by (auto simp: GraphTask_storage_fetch_swaps)
      next
        case (Inr hs)
        with f None False g l show ?thesis
          by (auto simp: GraphTask_storage_fetch_swaps)
      qed
    qed
  qed
qed

lemma pass_monotone_storage:
  assumes rf: "respects_filter e" and g: "GraphTask_storage e w = Some (w', r)"
  shows "parseLastBlockNumber w \<le> parseLastBlockNumber w'"
proof -
  from pass_outcomes_storage [OF g] show ?thesis
  proof
    assume "storageData w' = storageData w \<and> storageFile w' = storageFile w"
    then show ?thesis by (simp add: parseLastBlockNumber_def)
  next
    assume "\<exists>w1 swaps. fetchSwaps_storage e w = Some (w1, swaps, None) \<and> swaps \<noteq> []
              \<and> r = Inr None"
    then obtain w1 swaps where f: "fetchSwaps_storage e w = Some (w1, swaps, None)"
      and ne: "swaps \<noteq> []" and r: "r = Inr None" by blast
    from pass_checkpoint_storage [OF f ne g [unfolded r]]
    have last: "LastBlockNumber_storage (storageData w') = BlockNumber (hd swaps)"
      by simp
    from fetchSwaps_storage_first_page [OF f ne] obtain p rest where
      p: "api e (length (requests w)) pageSize (parseLastBlockNumber w) = Page p"
      "p \<noteq> []" "swaps = p @ rest" by blast
    then have "hd swaps \<in> set p" by simp
    with rf p(1) have "newer (parseLastBlockNumber w) (hd swaps)"
      unfolding respects_filter_def by blast
    then show ?thesis
      by (auto simp: newer_def parseLastBlockNumber_def [of w'] last
            split: prod.splits option.splits)
  qed
qed

lemma pass_idle_storage:
  assumes f: "fetchSwaps_storage e w = Some (w1, swaps, err)"
    and none: "swaps = [] \<or> (respects_filter e \<and>
                 (\<forall>sw \<in> set swaps. \<not> newer (parseLastBlockNumber w) sw))"
  shows "\<exists>w' r. GraphTask_storage e w = Some (w', r) \<and> storageData w' = storageData w
            \<and> storageFile w' = storageFile w"
proof -
  from f obtain reqs where w1: "w1 = w\<lparr>requests := reqs\<rparr>"
    by (rule fetchSwaps_storage_cases)
  have empty: "swaps = []" if "err = None"
  proof (rule ccontr)
    assume ne: "swaps \<noteq> []"
    with none have rf: "respects_filter e"
      and old: "\<forall>sw \<in> set swaps. \<not> newer (parseLastBlockNumber w) sw" by auto
    from fetchSwaps_storage_first_page [OF f [unfolded that] ne] obtain p rest where
      p: "api e (length (requests w)) pageSize (parseLastBlockNumber w) = Page p"
      "p \<noteq> []" "swaps = p @ rest" by blast
    then have "hd p \<in> set p" "hd p \<in> set swaps" by simp_all
    with rf p(1) old show False unfolding respects_filter_def by blast
  qed
  show ?thesis
  proof (cases err)
    case None
    with empty f have "GraphTask_storage e w = Some (w1, Inr None)"
      by (simp add: GraphTask_storage_fetch_empty)
    with w1 show ?thesis by simp
  next
    case (Some er)
    with f have "GraphTask_storage e w = Some (w1\<lparr>slept := slept w1 + 3\<rparr>, Inr (Some er))"
      by (simp add: GraphTask_storage_fetch_error)
    with w1 show ?thesis by simp
  qed
qed

subsection \<open>Concrete runs\<close>

lemma sendNotification_swap1:
  "getBarkAPIURLs w = BarkAPIURLs defaultConfig \<Longrightarrow>
   sendNotification (ref_env r) swap1 w = (w\<lparr>sent := sent w @ [(''0xh1'', url1)]\<rparr>, Inr None)"
  by (simp add: sendNotification_def LoadLocation_ref_env FormatSwap_swap1 httpGet_def
        defaultConfig_def url1_def)
     (simp add: swap1_def)

lemma sendNotification_swap2:
  "getBarkAPIURLs w = BarkAPIURLs defaultConfig \<Longrightarrow>
   sendNotification (ref_env r) swap2 w = (w\<lparr>sent := sent w @ [(''0xh2'', url2)]\<rparr>, Inr None)"
  by (simp add: sendNotification_def LoadLocation_ref_env FormatSwap_swap2 httpGet_def
        defaultConfig_def url2_def)
     (simp add: swap2_def)

lemma sendNotification_storage_swap1:
  "sendNotification_storage (ref_env r) swap1 w
     = (w\<lparr>sent := sent w @ [(''0xh1'', url1)]\<rparr>, Inr None)"
  by (simp add: sendNotification_storage_def LoadLocation_ref_env FormatSwap_swap1 httpGet_def
        barkAPIURLs_def url1_def)
     (simp add: swap1_def)

lemma sendNotification_storage_swap2:
  "sendNotification_storage (ref_env r) swap2 w
     = (w\<lparr>sent := sent w @ [(''0xh2'', url2)]\<rparr>, Inr None)"
  by (simp add: sendNotification_storage_def LoadLocation_ref_env FormatSwap_swap2 httpGet_def
        barkAPIURLs_def url2_def)
     (simp add: swap2_def)

lemma hashes0:
  "\<not> contains (CurrentTxHashes defaultConfig) (TransactionHash swap1)"
  "\<not> contains (CurrentTxHashes defaultConfig) (TransactionHash swap2)"
  "\<not> contains (CurrentTxHashes_storage storage0) (TransactionHash swap1)"
  "\<not> contains (CurrentTxHashes_storage storage0) (TransactionHash swap2)"
  by (simp_all add: defaultConfig_def storage0_def swap1_def swap2_def)

lemma hashes1:
  "contains (CurrentTxHashes config1) (TransactionHash swap1)"
  "contains (CurrentTxHashes config1) (TransactionHash swap2)"
  "contains (CurrentTxHashes_storage storage1) (TransactionHash swap1)"
  "contains (CurrentTxHashes_storage storage1) (TransactionHash swap2)"
  by (simp_all add: config1_def storage1_def swap1_def swap2_def)

lemma GraphTask_loop_remote:
  "GraphTask_loop (ref_env r) [swap2, swap1] []
       (world0\<lparr>requests := [(21612681, Page [swap2, swap1])]\<rparr>)
     = (world0\<lparr>requests := [(21612681, Page [swap2, swap1])],
               sent := [(''0xh2'', url2), (''0xh1'', url1)]\<rparr>, Inr [''0xh2'', ''0xh1''])"
proof -
  let ?w1 = "world0\<lparr>requests := [(21612681, Page [swap2, swap1])]\<rparr>"
  have u: "getBarkAPIURLs (w\<lparr>sent := s\<rparr>) = getBarkAPIURLs w" for w s
    by (simp add: getBarkAPIURLs_def)
  have c: "getCurrentTxHashes (w\<lparr>sent := s\<rparr>) = getCurrentTxHashes w" for w s
    by (simp add: getCurrentTxHashes_def)
  have u1: "getBarkAPIURLs ?w1 = BarkAPIURLs defaultConfig"
    by (simp add: getBarkAPIURLs_def world0_def)
  have c1: "getCurrentTxHashes ?w1 = CurrentTxHashes defaultConfig"
    by (simp add: getCurrentTxHashes_def world0_def)
  show ?thesis
    by (simp add: sendNotification_swap1 sendNotification_swap2 u c u1 c1 hashes0)
       (simp add: world0_def swap1_def swap2_def)
qed

lemma GraphTask_remote:
  "GraphTask (ref_env remote) world0 = Some (world1, Inr None)"
proof -
  have "GraphTask (ref_env remote) world0
      = (case GraphTask_loop (ref_env remote) [swap2, swap1] []
                (world0\<lparr>requests := [(21612681, Page [swap2, swap1])]\<rparr>) of
          (w2, Inl p) \<Rightarrow> Some (w2, Inl p)
        | (w2, Inr newTxHashes) \<Rightarrow>
            Some (saveConfig (ref_env remote)
                    (setCurrentTxHashes newTxHashes
                       (setLastBlockNumber (BlockNumber (hd [swap2, swap1])) w2)),
                  Inr None))"
    by (rule GraphTask_fetch_swaps [OF fetchSwaps_remote]) simp
  also have "\<dots> = Some (world1, Inr None)"
    unfolding GraphTask_loop_remote
    by (simp add: saveConfig_def setCurrentTxHashes_def setLastBlockNumber_def ref_env_def
          world0_def world1_def config1_def swap2_def)
  finally show ?thesis .
qed

lemma respects_filter_remote: "respects_filter (ref_env remote)"
  by (auto simp: respects_filter_def ref_env_def remote_def newer_def swap1_def swap2_def
        Atoi_21612700 Atoi_21612701 split: if_splits)

lemma fetchSwaps_remote_idle:
  "fetchSwaps (ref_env remote) world1
     = Some (world1\<lparr>requests := requests world1 @ [(21612701, Page [])]\<rparr>, [], None)"
  unfolding fetchSwaps_def
  by (subst fetchSwaps_loop.simps)
     (simp add: Let_def Atoi_21612701 ref_env_def remote_def world1_def config1_def pageSize_def
        getLastBlockNumber_def defaultConfig_def)

lemma fetchSwaps_remote_again:
  "fetchSwaps (ref_env remote_again) world1
     = Some (world1\<lparr>requests := requests world1 @ [(21612701, Page [swap2, swap1])]\<rparr>,
             [swap2, swap1], None)"
  unfolding fetchSwaps_def
  by (subst fetchSwaps_loop.simps)
     (simp add: Let_def Atoi_21612701 ref_env_def remote_again_def world1_def config1_def
        pageSize_def getLastBlockNumber_def defaultConfig_def)

lemma GraphTask_remote_again:
  "GraphTask (ref_env remote_again) world1 = Some (world2, Inr None)"
proof -
  let ?w = "world1\<lparr>requests := requests world1 @ [(21612701, Page [swap2, swap1])]\<rparr>"
  have c1: "getCurrentTxHashes ?w = CurrentTxHashes config1"
    by (simp add: getCurrentTxHashes_def world1_def)
  have l: "GraphTask_loop (ref_env remote_again) [swap2, swap1] [] ?w = (?w, Inr [])"
    by (simp add: c1 hashes1)
  have "GraphTask (ref_env remote_again) world1
      = (case GraphTask_loop (ref_env remote_again) [swap2, swap1] [] ?w of
          (w2, Inl p) \<Rightarrow> Some (w2, Inl p)
        | (w2, Inr newTxHashes) \<Rightarrow>
            Some (saveConfig (ref_env remote_again)
                    (setCurrentTxHashes newTxHashes
                       (setLastBlockNumber (BlockNumber (hd [swap2, swap1])) w2)),
                  Inr None))"
    by (rule GraphTask_fetch_swaps [OF fetchSwaps_remote_again]) simp
  also have "\<dots> = Some (world2, Inr None)"
    unfolding l
    by (simp add: saveConfig_def setCurrentTxHashes_def setLastBlockNumber_def ref_env_def
          world1_def world2_def config1_def swap2_def)
  finally show ?thesis .
qed

lemma fetchSwaps_remote_down:
  "fetchSwaps (ref_env remote_down) world0
     = Some (world0\<lparr>requests := [(21612681, Failure ErrTransport)]\<rparr>, [], Some ErrTransport)"
  unfolding fetchSwaps_def
  by (subst fetchSwaps_loop.simps)
     (simp add: Let_def Atoi_21612681 ref_env_def remote_down_def world0_def pageSize_def
        getLastBlockNumber_def defaultConfig_def)

lemma parseLastBlockNumber_world0: "parseLastBlockNumber world0_storage = 21612681"
  by (simp add: parseLastBlockNumber_def world0_storage_def storage0_def Atoi_21612681)

lemma parseLastBlockNumber_world1: "parseLastBlockNumber world1_storage = 21612701"
  by (simp add: parseLastBlockNumber_def world1_storage_def storage1_def Atoi_21612701)

lemma last_blocks:
  "Atoi (BlockNumber swap1) = (21612700, None)" "Atoi (BlockNumber swap2) = (21612701, None)"
  by (simp_all add: swap1_def swap2_def Atoi_21612700 Atoi_21612701)

lemma fetchSwaps_storage_remote:
  "fetchSwaps_storage (ref_env remote) world0_storage
     = Some (world0_storage\<lparr>requests := [(21612681, Page [swap2, swap1])]\<rparr>,
             [swap2, swap1], None)"
  unfolding fetchSwaps_storage_def parseLastBlockNumber_world0
  by (subst fetchSwaps_loop_storage.simps)
     (simp add: Let_def last_blocks ref_env_def remote_def world0_storage_def pageSize_def)

lemma GraphTask_loop_storage_remote:
  "GraphTask_loop_storage (ref_env r) [swap2, swap1] []
       (world0_storage\<lparr>requests := [(21612681, Page [swap2, swap1])]\<rparr>)
     = (world0_storage\<lparr>requests := [(21612681, Page [swap2, swap1])],
               sent := [(''0xh2'', url2), (''0xh1'', url1)]\<rparr>, Inr [''0xh2'', ''0xh1''])"
proof -
  let ?w1 = "world0_storage\<lparr>requests := [(21612681, Page [swap2, swap1])]\<rparr>"
  have c1: "CurrentTxHashes_storage (storageData world0_storage)
              = CurrentTxHashes_storage storage0"
    by (simp add: world0_storage_def)
  show ?thesis
    by (simp add: sendNotification_storage_swap1 sendNotification_storage_swap2 c1 hashes0)
       (simp add: world0_storage_def swap1_def swap2_def)
qed

lemma GraphTask_storage_remote:
  "GraphTask_storage (ref_env remote) world0_storage = Some (world1_storage, Inr None)"
proof -
  have "GraphTask_storage (ref_env remote) world0_storage
      = (case GraphTask_loop_storage (ref_env remote) [swap2, swap1] []
                (world0_storage\<lparr>requests := [(21612681, Page [swap2, swap1])]\<rparr>) of
          (w2, Inl p) \<Rightarrow> Some (w2, Inl p)
        | (w2, Inr newTxHashes) \<Rightarrow>
            Some (saveStorage (ref_env remote)
                    (w2\<lparr>storageData :=
                          (storageData w2)
                            \<lparr>LastBlockNumber_storage := BlockNumber (hd [swap2, swap1]),
                             CurrentTxHashes_storage := newTxHashes\<rparr>\<rparr>),
                  Inr None))"
    by (rule GraphTask_storage_fetch_swaps [OF fetchSwaps_storage_remote]) simp
  also have "\<dots> = Some (world1_storage, Inr None)"
    unfolding GraphTask_loop_storage_remote
    by (simp add: saveStorage_def ref_env_def
          world0_storage_def world1_storage_def storage1_def storage0_def swap2_def)
  finally show ?thesis .
qed

lemma fetchSwaps_storage_remote_idle:
  "fetchSwaps_storage (ref_env remote) world1_storage
     = Some (world1_storage\<lparr>requests := requests world1_storage @ [(21612701, Page [])]\<rparr>,
             [], None)"
  unfolding fetchSwaps_storage_def parseLastBlockNumber_world1
  by (subst fetchSwaps_loop_storage.simps)
     (simp add: Let_def ref_env_def remote_def world1_storage_def pageSize_def)

lemma fetchSwaps_storage_remote_again:
  "fetchSwaps_storage (ref_env remote_again) world1_storage
     = Some (world1_storage
               \<lparr>requests := requests world1_storage @ [(21612701, Page [swap2, swap1])]\<rparr>,
             [swap2, swap1], None)"
  unfolding fetchSwaps_storage_def parseLastBlockNumber_world1
  by (subst fetchSwaps_loop_storage.simps)
     (simp add: Let_def last_blocks ref_env_def remote_again_def world1_storage_def pageSize_def)

lemma GraphTask_storage_remote_again:
  "GraphTask_storage (ref_env remote_again) world1_storage = Some (world2_storage, Inr None)"
proof -
  let ?w = "world1_storage
              \<lparr>requests := requests world1_storage @ [(21612701, Page [swap2, swap1])]\<rparr>"
  have c1: "CurrentTxHashes_storage (storageData world1_storage)
              = CurrentTxHashes_storage storage1"
    by (simp add: world1_storage_def)
  have l: "GraphTask_loop_storage (ref_env remote_again) [swap2, swap1] [] ?w = (?w, Inr [])"
    by (simp add: c1 hashes1)
  have "GraphTask_storage (ref_env remote_again) world1_storage
      = (case GraphTask_loop_storage (ref_env remote_again) [swap2, swap1] [] ?w of
          (w2, Inl p) \<Rightarrow> Some (w2, Inl p)
        | (w2, Inr newTxHashes) \<Rightarrow>
            Some (saveStorage (ref_env remote_again)
                    (w2\<lparr>storageData :=
                          (storageData w2)
                            \<lparr>LastBlockNumber_storage := BlockNumber (hd [swap2, swap1]),
                             CurrentTxHashes_storage := newTxHashes\<rparr>\<rparr>),
                  Inr None))"
    by (rule GraphTask_storage_fetch_swaps [OF fetchSwaps_storage_remote_again]) simp
  also have "\<dots> = Some (world2_storage, Inr None)"
    unfolding l
    by (simp add: saveStorage_def ref_env_def
          world1_storage_def world2_storage_def storage1_def swap2_def)
  finally show ?thesis .
qed

lemma fetchSwaps_storage_remote_down:
  "fetchSwaps_storage (ref_env remote_down) world0_storage
     = Some (world0_storage\<lparr>requests := [(21612681, Failure ErrTransport)]\<rparr>,
             [], Some ErrTransport)"
  unfolding fetchSwaps_storage_def parseLastBlockNumber_world0
  by (subst fetchSwaps_loop_storage.simps)
     (simp add: Let_def ref_env_def remote_down_def world0_storage_def pageSize_def)

section \<open>Passes, pagination, notification and loading\<close>

text \<open>
  \<^bold>\<open>C8.\<close> The pagination loop returns a result exactly when the requests it sent form one
  complete pagination: every page before the last held at least \<open>pageSize = 50\<close> swaps,
  the last page held fewer (possibly none), each request after the first carried the block
  number of the last swap of the page before it, and the result is all pages in order
  (appended to what was accumulated). So the loop goes on after every full page and stops
  at the first page that is empty or short, however many swaps the endpoint holds. In the
  \<open>storage.json\<close> variant the block numbers it reads must parse; a request that fails, or
  there a block number that does not parse, ends the fetch with the error instead.
\<close>

theorem pagination_stops_at_short_page:
  "(fetchSwaps_loop e reqs c all = Some (reqs', res, None) \<longleftrightarrow>
      (\<exists>tr. reqs' = reqs @ tr \<and> answered e (length reqs) tr \<and> paginated c tr
            \<and> res = all @ pages tr))
   \<and> (fetchSwaps_loop_storage e reqs c all = Some (reqs', res, None) \<longleftrightarrow>
      (\<exists>tr. reqs' = reqs @ tr \<and> answered e (length reqs) tr \<and> paginated_storage c tr
            \<and> res = all @ pages tr))"
proof (intro conjI iffI)
  assume "fetchSwaps_loop e reqs c all = Some (reqs', res, None)"
  from fetchSwaps_loop_trace [OF this]
  show "\<exists>tr. reqs' = reqs @ tr \<and> answered e (length reqs) tr \<and> paginated c tr
            \<and> res = all @ pages tr" by blast
next
  assume "\<exists>tr. reqs' = reqs @ tr \<and> answered e (length reqs) tr \<and> paginated c tr
            \<and> res = all @ pages tr"
  then show "fetchSwaps_loop e reqs c all = Some (reqs', res, None)"
    by (auto simp: fetchSwaps_loop_run)
next
  assume "fetchSwaps_loop_storage e reqs c all = Some (reqs', res, None)"
  from fetchSwaps_loop_storage_trace [OF this]
  show "\<exists>tr. reqs' = reqs @ tr \<and> answered e (length reqs) tr \<and> paginated_storage c tr
            \<and> res = all @ pages tr" by blast
next
  assume "\<exists>tr. reqs' = reqs @ tr \<and> answered e (length reqs) tr \<and> paginated_storage c tr
            \<and> res = all @ pages tr"
  then show "fetchSwaps_loop_storage e reqs c all = Some (reqs', res, None)"
    by (auto simp: fetchSwaps_loop_storage_run)
qed

text \<open>The theorem at an endpoint that answers with a page of 50 swaps and then a page of
  one: two requests, the second with cursor 21612701, and 51 swaps.\<close>

theorem pagination_stops_at_short_page_witness:
  "answered (ref_env remote_paged) 0
      [(21612681, Page (replicate 50 swap2)), (21612701, Page [swap1])]
   \<and> paginated 21612681 [(21612681, Page (replicate 50 swap2)), (21612701, Page [swap1])]
   \<and> paginated_storage 21612681
        [(21612681, Page (replicate 50 swap2)), (21612701, Page [swap1])]
   \<and> fetchSwaps_loop (ref_env remote_paged) [] 21612681 []
       = Some ([(21612681, Page (replicate 50 swap2)), (21612701, Page [swap1])],
               replicate 50 swap2 @ [swap1], None)
   \<and> fetchSwaps_loop_storage (ref_env remote_paged) [] 21612681 []
       = Some ([(21612681, Page (replicate 50 swap2)), (21612701, Page [swap1])],
               replicate 50 swap2 @ [swap1], None)"
proof -
  let ?e = "ref_env remote_paged"
  let ?tr = "[(21612681, Page (replicate 50 swap2)), (21612701, Page [swap1])]"
  have a: "answered ?e 0 ?tr"
    by (simp add: ref_env_def remote_paged_def)
  have p: "paginated 21612681 ?tr"
    by (simp add: pageSize_def last_blocks)
  have ps: "paginated_storage 21612681 ?tr"
    by (simp add: pageSize_def last_blocks)
  note t = pagination_stops_at_short_page
    [of ?e "[]" 21612681 "[]" ?tr "replicate 50 swap2 @ [swap1]"]
  have pg: "replicate 50 swap2 @ [swap1] = [] @ pages ?tr" by simp
  have a': "answered ?e (length ([] :: (int \<times> response) list)) ?tr"
    using a by simp
  have "\<exists>tr. ?tr = [] @ tr \<and> answered ?e (length ([] :: (int \<times> response) list)) tr
      \<and> paginated 21612681 tr \<and> replicate 50 swap2 @ [swap1] = [] @ pages tr"
    by (rule exI [of _ ?tr]) (intro conjI append_Nil [symmetric] a' p pg)
  with t have f: "fetchSwaps_loop ?e [] 21612681 [] = Some (?tr, replicate 50 swap2 @ [swap1], None)"
    by blast
  have "\<exists>tr. ?tr = [] @ tr \<and> answered ?e (length ([] :: (int \<times> response) list)) tr
      \<and> paginated_storage 21612681 tr \<and> replicate 50 swap2 @ [swap1] = [] @ pages tr"
    by (rule exI [of _ ?tr]) (intro conjI append_Nil [symmetric] a' ps pg)
  with t have fs: "fetchSwaps_loop_storage ?e [] 21612681 []
      = Some (?tr, replicate 50 swap2 @ [swap1], None)"
    by blast
  from a p ps f fs show ?thesis by (intro conjI)
qed



lemma fetchSwaps_remote_again_first:
  "fetchSwaps (ref_env remote_again) world0
     = Some (world0\<lparr>requests := [(21612681, Page [swap2, swap1])]\<rparr>, [swap2, swap1], None)"
  unfolding fetchSwaps_def
  by (subst fetchSwaps_loop.simps)
     (simp add: Let_def Atoi_21612681 ref_env_def remote_again_def world0_def pageSize_def
        getLastBlockNumber_def defaultConfig_def)

lemma GraphTask_remote_again_first:
  "GraphTask (ref_env remote_again) world0 = Some (world1, Inr None)"
proof -
  have "GraphTask (ref_env remote_again) world0
      = (case GraphTask_loop (ref_env remote_again) [swap2, swap1] []
                (world0\<lparr>requests := [(21612681, Page [swap2, swap1])]\<rparr>) of
          (w2, Inl p) \<Rightarrow> Some (w2, Inl p)
        | (w2, Inr newTxHashes) \<Rightarrow>
            Some (saveConfig (ref_env remote_again)
                    (setCurrentTxHashes newTxHashes
                       (setLastBlockNumber (BlockNumber (hd [swap2, swap1])) w2)),
                  Inr None))"
    by (rule GraphTask_fetch_swaps [OF fetchSwaps_remote_again_first]) simp
  also have "\<dots> = Some (world1, Inr None)"
    unfolding GraphTask_loop_remote
    by (simp add: saveConfig_def setCurrentTxHashes_def setLastBlockNumber_def ref_env_def
          world0_def world1_def config1_def swap2_def)
  finally show ?thesis .
qed

lemma fetchSwaps_storage_remote_again_first:
  "fetchSwaps_storage (ref_env remote_again) world0_storage
     = Some (world0_storage\<lparr>requests := [(21612681, Page [swap2, swap1])]\<rparr>,
             [swap2, swap1], None)"
  unfolding fetchSwaps_storage_def parseLastBlockNumber_world0
  by (subst fetchSwaps_loop_storage.simps)
     (simp add: Let_def last_blocks ref_env_def remote_again_def world0_storage_def pageSize_def)

lemma GraphTask_storage_remote_again_first:
  "GraphTask_storage (ref_env remote_again) world0_storage = Some (world1_storage, Inr None)"
proof -
  have "GraphTask_storage (ref_env remote_again) world0_storage
      = (case GraphTask_loop_storage (ref_env remote_again) [swap2, swap1] []
                (world0_storage\<lparr>requests := [(21612681, Page [swap2, swap1])]\<rparr>) of
          (w2, Inl p) \<Rightarrow> Some (w2, Inl p)
        | (w2, Inr newTxHashes) \<Rightarrow>
            Some (saveStorage (ref_env remote_again)
                    (w2\<lparr>storageData :=
                          (storageData w2)
                            \<lparr>LastBlockNumber_storage := BlockNumber (hd [swap2, swap1]),
                             CurrentTxHashes_storage := newTxHashes\<rparr>\<rparr>),
                  Inr None))"
    by (rule GraphTask_storage_fetch_swaps [OF fetchSwaps_storage_remote_again_first]) simp
  also have "\<dots> = Some (world1_storage, Inr None)"
    unfolding GraphTask_loop_storage_remote
    by (simp add: saveStorage_def ref_env_def
          world0_storage_def world1_storage_def storage1_def storage0_def swap2_def)
  finally show ?thesis .
qed

lemma not_newer_checkpoint:
  "\<not> newer 21612701 swap2" "\<not> newer 21612701 swap1"
  by (simp_all add: newer_def last_blocks)

lemma checkpoint_world1: "fst (Atoi (getLastBlockNumber world1)) = 21612701"
  by (simp add: getLastBlockNumber_def world1_def config1_def Atoi_21612701)

lemma fetch_nothing_newer_config:
  assumes f: "fetchSwaps e w = Some (w1, swaps, err)" and rf: "respects_filter e"
    and old: "\<forall>sw \<in> set swaps. \<not> newer (fst (Atoi (getLastBlockNumber w))) sw"
  shows "swaps = []"
proof (cases err)
  case (Some er)
  with f show ?thesis by (auto dest: fetchSwaps_error_nil)
next
  case None
  show ?thesis
  proof (rule ccontr)
    assume ne: "swaps \<noteq> []"
    from fetchSwaps_first_page [OF f [unfolded None] ne] obtain p rest where
      p: "api e (length (requests w)) pageSize (fst (Atoi (getLastBlockNumber w))) = Page p"
      "p \<noteq> []" "swaps = p @ rest" by blast
    then have "hd p \<in> set p" "hd p \<in> set swaps" by simp_all
    with rf p(1) old show False unfolding respects_filter_def by blast
  qed
qed

lemma fetch_nothing_newer_storage:
  assumes f: "fetchSwaps_storage e w = Some (w1, swaps, err)" and rf: "respects_filter e"
    and old: "\<forall>sw \<in> set swaps. \<not> newer (parseLastBlockNumber w) sw"
  shows "swaps = []"
proof (cases err)
  case (Some er)
  with f show ?thesis by (auto dest: fetchSwaps_storage_error_nil)
next
  case None
  show ?thesis
  proof (rule ccontr)
    assume ne: "swaps \<noteq> []"
    from fetchSwaps_storage_first_page [OF f [unfolded None] ne] obtain p rest where
      p: "api e (length (requests w)) pageSize (parseLastBlockNumber w) = Page p"
      "p \<noteq> []" "swaps = p @ rest" by blast
    then have "hd p \<in> set p" "hd p \<in> set swaps" by simp_all
    with rf p(1) old show False unfolding respects_filter_def by blast
  qed
qed

text \<open>
  \<^bold>\<open>C2.\<close> A second pass whose fetch yields no swap newer than the checkpoint can still
  change the persisted state. Against an endpoint that returns \<open>swap2\<close> and \<open>swap1\<close> to
  every request, the first pass from the default state checkpoints at block 21612701 with
  both hashes; the second pass fetches the same two swaps, neither above 21612701, sends
  nothing, and replaces the hash list by the empty list and rewrites the file.
\<close>

theorem pass_twice_counterexample:
  "GraphTask (ref_env remote_again) world0 = Some (world1, Inr None)
   \<and> fetchSwaps (ref_env remote_again) world1
       = Some (world1\<lparr>requests := requests world1 @ [(21612701, Page [swap2, swap1])]\<rparr>,
               [swap2, swap1], None)
   \<and> \<not> newer (fst (Atoi (getLastBlockNumber world1))) swap2
   \<and> \<not> newer (fst (Atoi (getLastBlockNumber world1))) swap1
   \<and> GraphTask (ref_env remote_again) world1 = Some (world2, Inr None)
   \<and> CurrentTxHashes (configData world1) = [''0xh2'', ''0xh1'']
   \<and> CurrentTxHashes (configData world2) = []
   \<and> configData world2 \<noteq> configData world1
   \<and> configFile world2 \<noteq> configFile world1
   \<and> GraphTask_storage (ref_env remote_again) world0_storage = Some (world1_storage, Inr None)
   \<and> fetchSwaps_storage (ref_env remote_again) world1_storage
       = Some (world1_storage
                 \<lparr>requests := requests world1_storage @ [(21612701, Page [swap2, swap1])]\<rparr>,
               [swap2, swap1], None)
   \<and> \<not> newer (parseLastBlockNumber world1_storage) swap2
   \<and> \<not> newer (parseLastBlockNumber world1_storage) swap1
   \<and> GraphTask_storage (ref_env remote_again) world1_storage = Some (world2_storage, Inr None)
   \<and> storageData world2_storage \<noteq> storageData world1_storage
   \<and> storageFile world2_storage \<noteq> storageFile world1_storage"
proof -
  have c: "CurrentTxHashes (configData world1) = [''0xh2'', ''0xh1'']"
    "CurrentTxHashes (configData world2) = []"
    "configData world2 \<noteq> configData world1" "configFile world2 \<noteq> configFile world1"
    by (simp_all add: world1_def world2_def config1_def defaultConfig_def)
  have s: "storageData world2_storage \<noteq> storageData world1_storage"
    "storageFile world2_storage \<noteq> storageFile world1_storage"
    by (simp_all add: world1_storage_def world2_storage_def storage1_def)
  from GraphTask_remote_again_first fetchSwaps_remote_again
    not_newer_checkpoint [folded checkpoint_world1] GraphTask_remote_again c
    GraphTask_storage_remote_again_first fetchSwaps_storage_remote_again
    not_newer_checkpoint [folded parseLastBlockNumber_world1] GraphTask_storage_remote_again s
  show ?thesis by (intro conjI)
qed

text \<open>
  \<^bold>\<open>C2, what holds.\<close> Let the endpoint return only swaps whose block number is above
  the requested cursor, let \<open>w1\<close> be the state after a first pass, and let the fetch of
  the second pass yield no swap newer than the checkpoint. Then that fetch yields no swap
  at all, and the second pass returns and leaves the persisted state as it was: the state
  in memory and the state file are those of \<open>w1\<close>.
\<close>

theorem pass_twice_unchanged:
  "(GraphTask e w0 = Some (w1, r1) \<and> fetchSwaps e w1 = Some (w1', swaps, err) \<and>
      respects_filter e \<and>
      (\<forall>sw \<in> set swaps. \<not> newer (fst (Atoi (getLastBlockNumber w1))) sw) \<longrightarrow>
      swaps = [] \<and>
      (\<exists>w2 r2. GraphTask e w1 = Some (w2, r2) \<and> configData w2 = configData w1
              \<and> configFile w2 = configFile w1))
   \<and> (GraphTask_storage e v0 = Some (v1, s1) \<and>
       fetchSwaps_storage e v1 = Some (v1', swaps', err') \<and>
       respects_filter e \<and>
       (\<forall>sw \<in> set swaps'. \<not> newer (parseLastBlockNumber v1) sw) \<longrightarrow>
      swaps' = [] \<and>
      (\<exists>v2 s2. GraphTask_storage e v1 = Some (v2, s2) \<and> storageData v2 = storageData v1
              \<and> storageFile v2 = storageFile v1))"
proof (rule conjI; rule impI; elim conjE)
  assume f: "fetchSwaps e w1 = Some (w1', swaps, err)" and rf: "respects_filter e"
    and old: "\<forall>sw \<in> set swaps. \<not> newer (fst (Atoi (getLastBlockNumber w1))) sw"
  from fetch_nothing_newer_config [OF f rf old] have e: "swaps = []" .
  then have "swaps = [] \<or> (respects_filter e \<and>
      (\<forall>sw \<in> set swaps. \<not> newer (fst (Atoi (getLastBlockNumber w1))) sw))" by simp
  from pass_idle_config [OF f this] e
  show "swaps = [] \<and>
      (\<exists>w2 r2. GraphTask e w1 = Some (w2, r2) \<and> configData w2 = configData w1
              \<and> configFile w2 = configFile w1)" by simp
next
  assume f: "fetchSwaps_storage e v1 = Some (v1', swaps', err')" and rf: "respects_filter e"
    and old: "\<forall>sw \<in> set swaps'. \<not> newer (parseLastBlockNumber v1) sw"
  from fetch_nothing_newer_storage [OF f rf old] have e: "swaps' = []" .
  then have "swaps' = [] \<or> (respects_filter e \<and>
      (\<forall>sw \<in> set swaps'. \<not> newer (parseLastBlockNumber v1) sw))" by simp
  from pass_idle_storage [OF f this] e
  show "swaps' = [] \<and>
      (\<exists>v2 s2. GraphTask_storage e v1 = Some (v2, s2) \<and> storageData v2 = storageData v1
              \<and> storageFile v2 = storageFile v1)" by simp
qed

text \<open>The statement at two passes against an endpoint that honours the cursor: the
  first checkpoints at 21612701, the second fetches nothing.\<close>

theorem pass_twice_unchanged_witness:
  "GraphTask (ref_env remote) world0 = Some (world1, Inr None)
   \<and> fetchSwaps (ref_env remote) world1
       = Some (world1\<lparr>requests := requests world1 @ [(21612701, Page [])]\<rparr>, [], None)
   \<and> respects_filter (ref_env remote)
   \<and> (\<exists>w2 r2. GraphTask (ref_env remote) world1 = Some (w2, r2)
           \<and> configData w2 = configData world1 \<and> configFile w2 = configFile world1)
   \<and> GraphTask_storage (ref_env remote) world0_storage = Some (world1_storage, Inr None)
   \<and> fetchSwaps_storage (ref_env remote) world1_storage
       = Some (world1_storage\<lparr>requests := requests world1_storage @ [(21612701, Page [])]\<rparr>,
               [], None)
   \<and> (\<exists>v2 s2. GraphTask_storage (ref_env remote) world1_storage = Some (v2, s2)
           \<and> storageData v2 = storageData world1_storage
           \<and> storageFile v2 = storageFile world1_storage)"
proof -
  let ?e = "ref_env remote"
  note t = pass_twice_unchanged
    [of ?e world0 world1 "Inr None" _ "[]" None world0_storage world1_storage "Inr None"
        _ "[]" None]
  have n: "\<forall>sw \<in> set ([] :: Swap list).
             \<not> newer (fst (Atoi (getLastBlockNumber world1))) sw"
    "\<forall>sw \<in> set ([] :: Swap list). \<not> newer (parseLastBlockNumber world1_storage) sw"
    by simp_all
  from t GraphTask_remote fetchSwaps_remote_idle respects_filter_remote n(1)
  have a: "\<exists>w2 r2. GraphTask ?e world1 = Some (w2, r2)
           \<and> configData w2 = configData world1 \<and> configFile w2 = configFile world1"
    by blast
  from t GraphTask_storage_remote fetchSwaps_storage_remote_idle respects_filter_remote n(2)
  have b: "\<exists>v2 s2. GraphTask_storage ?e world1_storage = Some (v2, s2)
           \<and> storageData v2 = storageData world1_storage
           \<and> storageFile v2 = storageFile world1_storage"
    by blast
  from GraphTask_remote fetchSwaps_remote_idle respects_filter_remote a
    GraphTask_storage_remote fetchSwaps_storage_remote_idle b
  show ?thesis by (intro conjI)
qed

text \<open>
  \<^bold>\<open>C3.\<close> Let \<open>h\<close> be a transaction hash in the persisted list at the start of a pass.
  Whatever the pass fetches and however it ends, the notifications it sends (the
  \<open>http.Get\<close> calls it adds to the trace, each recorded with the hash of the swap it was
  made for) include none for a swap with hash \<open>h\<close>.
\<close>

theorem dedup_no_renotification:
  "(GraphTask e w = Some (w', r) \<and> h \<in> set (getCurrentTxHashes w) \<longrightarrow>
      (\<exists>new. sent w' = sent w @ new \<and> h \<notin> fst ` set new))
   \<and> (GraphTask_storage e v = Some (v', r') \<and> h \<in> set (CurrentTxHashes_storage (storageData v))
        \<longrightarrow> (\<exists>new. sent v' = sent v @ new \<and> h \<notin> fst ` set new))"
proof (rule conjI; rule impI; elim conjE)
  assume g: "GraphTask e w = Some (w', r)" and h: "h \<in> set (getCurrentTxHashes w)"
  from GraphTask_sent [OF g] obtain new where "sent w' = sent w @ new"
    "\<forall>x \<in> set new. fst x \<notin> set (getCurrentTxHashes w)" by blast
  with h show "\<exists>new. sent w' = sent w @ new \<and> h \<notin> fst ` set new"
    by (intro exI [of _ new]) auto
next
  assume g: "GraphTask_storage e v = Some (v', r')"
    and h: "h \<in> set (CurrentTxHashes_storage (storageData v))"
  from GraphTask_storage_sent [OF g] obtain new where "sent v' = sent v @ new"
    "\<forall>x \<in> set new. fst x \<notin> set (CurrentTxHashes_storage (storageData v))" by blast
  with h show "\<exists>new. sent v' = sent v @ new \<and> h \<notin> fst ` set new"
    by (intro exI [of _ new]) auto
qed

text \<open>The theorem at a pass from \<open>world1\<close>, whose list holds the hashes of \<open>swap2\<close> and
  \<open>swap1\<close>, against an endpoint that returns both swaps again.\<close>

theorem dedup_no_renotification_witness:
  "GraphTask (ref_env remote_again) world1 = Some (world2, Inr None)
   \<and> TransactionHash swap1 \<in> set (getCurrentTxHashes world1)
   \<and> (\<exists>new. sent world2 = sent world1 @ new \<and> TransactionHash swap1 \<notin> fst ` set new)
   \<and> GraphTask_storage (ref_env remote_again) world1_storage = Some (world2_storage, Inr None)
   \<and> TransactionHash swap1 \<in> set (CurrentTxHashes_storage (storageData world1_storage))
   \<and> (\<exists>new. sent world2_storage = sent world1_storage @ new
            \<and> TransactionHash swap1 \<notin> fst ` set new)"
proof -
  let ?e = "ref_env remote_again"
  note t = dedup_no_renotification
    [of ?e world1 world2 "Inr None" "TransactionHash swap1" world1_storage world2_storage
        "Inr None"]
  have h: "TransactionHash swap1 \<in> set (getCurrentTxHashes world1)"
    by (simp add: getCurrentTxHashes_def world1_def config1_def swap1_def)
  have hs: "TransactionHash swap1 \<in> set (CurrentTxHashes_storage (storageData world1_storage))"
    by (simp add: world1_storage_def storage1_def swap1_def)
  from t GraphTask_remote_again h
  have a: "\<exists>new. sent world2 = sent world1 @ new \<and> TransactionHash swap1 \<notin> fst ` set new"
    by blast
  from t GraphTask_storage_remote_again hs
  have b: "\<exists>new. sent world2_storage = sent world1_storage @ new
            \<and> TransactionHash swap1 \<notin> fst ` set new"
    by blast
  from GraphTask_remote_again h a GraphTask_storage_remote_again hs b
  show ?thesis by (intro conjI)
qed

text \<open>
  \<^bold>\<open>C7.\<close> When the fetch of a pass returns an error, it returns no swaps with it, and the
  pass returns that error with the state in memory, the state file and the notifications
  sent all as they were before the pass; the next pass therefore starts from the same
  \<open>lastBlockNumber\<close>.
\<close>

theorem fetch_error_keeps_state:
  "(fetchSwaps e w = Some (w1, swaps, Some err) \<longrightarrow>
      swaps = [] \<and>
      (\<exists>w'. GraphTask e w = Some (w', Inr (Some err)) \<and> configData w' = configData w
           \<and> configFile w' = configFile w \<and> sent w' = sent w))
   \<and> (fetchSwaps_storage e v = Some (v1, swaps', Some err') \<longrightarrow>
      swaps' = [] \<and>
      (\<exists>v'. GraphTask_storage e v = Some (v', Inr (Some err')) \<and> storageData v' = storageData v
           \<and> storageFile v' = storageFile v \<and> sent v' = sent v))"
  using pass_error_config pass_error_storage by blast

text \<open>The theorem at an endpoint that is down.\<close>

theorem fetch_error_keeps_state_witness:
  "fetchSwaps (ref_env remote_down) world0
     = Some (world0\<lparr>requests := [(21612681, Failure ErrTransport)]\<rparr>, [], Some ErrTransport)
   \<and> (\<exists>w'. GraphTask (ref_env remote_down) world0 = Some (w', Inr (Some ErrTransport))
          \<and> configData w' = configData world0 \<and> configFile w' = configFile world0
          \<and> sent w' = sent world0)
   \<and> fetchSwaps_storage (ref_env remote_down) world0_storage
     = Some (world0_storage\<lparr>requests := [(21612681, Failure ErrTransport)]\<rparr>, [],
             Some ErrTransport)
   \<and> (\<exists>v'. GraphTask_storage (ref_env remote_down) world0_storage
             = Some (v', Inr (Some ErrTransport))
          \<and> storageData v' = storageData world0_storage
          \<and> storageFile v' = storageFile world0_storage
          \<and> sent v' = sent world0_storage)"
proof -
  let ?e = "ref_env remote_down"
  note t = fetch_error_keeps_state
    [of ?e world0 _ "[]" ErrTransport world0_storage _ "[]" ErrTransport]
  from t fetchSwaps_remote_down
  have a: "\<exists>w'. GraphTask ?e world0 = Some (w', Inr (Some ErrTransport))
          \<and> configData w' = configData world0 \<and> configFile w' = configFile world0
          \<and> sent w' = sent world0"
    by blast
  from t fetchSwaps_storage_remote_down
  have b: "\<exists>v'. GraphTask_storage ?e world0_storage = Some (v', Inr (Some ErrTransport))
          \<and> storageData v' = storageData world0_storage
          \<and> storageFile v' = storageFile world0_storage
          \<and> sent v' = sent world0_storage"
    by blast
  from fetchSwaps_remote_down a fetchSwaps_storage_remote_down b
  show ?thesis by (intro conjI)
qed

text \<open>
  \<^bold>\<open>C10.\<close> If the endpoint only returns swaps whose block number is above the requested
  cursor, then after a pass that returns (successfully or not) the persisted
  \<open>lastBlockNumber\<close>, read as the number the next fetch starts from, is at least what it
  was before the pass.
\<close>

theorem lastBlockNumber_monotone:
  "(respects_filter e \<and> GraphTask e w = Some (w', r) \<longrightarrow>
      fst (Atoi (getLastBlockNumber w)) \<le> fst (Atoi (getLastBlockNumber w')))
   \<and> (respects_filter e \<and> GraphTask_storage e v = Some (v', r') \<longrightarrow>
      parseLastBlockNumber v \<le> parseLastBlockNumber v')"
  using pass_monotone_config pass_monotone_storage by blast

text \<open>The theorem at the pass from the default state: from 21612681 to 21612701.\<close>

theorem lastBlockNumber_monotone_witness:
  "respects_filter (ref_env remote)
   \<and> GraphTask (ref_env remote) world0 = Some (world1, Inr None)
   \<and> fst (Atoi (getLastBlockNumber world0)) = 21612681
   \<and> fst (Atoi (getLastBlockNumber world1)) = 21612701
   \<and> fst (Atoi (getLastBlockNumber world0)) \<le> fst (Atoi (getLastBlockNumber world1))
   \<and> GraphTask_storage (ref_env remote) world0_storage = Some (world1_storage, Inr None)
   \<and> parseLastBlockNumber world0_storage = 21612681
   \<and> parseLastBlockNumber world1_storage = 21612701
   \<and> parseLastBlockNumber world0_storage \<le> parseLastBlockNumber world1_storage"
proof -
  let ?e = "ref_env remote"
  note t = lastBlockNumber_monotone
    [of ?e world0 world1 "Inr None" world0_storage world1_storage "Inr None"]
  from t respects_filter_remote GraphTask_remote
  have a: "fst (Atoi (getLastBlockNumber world0)) \<le> fst (Atoi (getLastBlockNumber world1))"
    by blast
  from t respects_filter_remote GraphTask_storage_remote
  have b: "parseLastBlockNumber world0_storage \<le> parseLastBlockNumber world1_storage"
    by blast
  have a0: "fst (Atoi (getLastBlockNumber world0)) = 21612681"
    by (simp add: getLastBlockNumber_def world0_def defaultConfig_def Atoi_21612681)
  have a1: "fst (Atoi (getLastBlockNumber world1)) = 21612701"
    by (simp add: getLastBlockNumber_def world1_def config1_def Atoi_21612701)
  from respects_filter_remote GraphTask_remote a0 a1 a GraphTask_storage_remote
    parseLastBlockNumber_world0 parseLastBlockNumber_world1 b
  show ?thesis by (intro conjI)
qed

lemma FormatSwap_message_location:
  "FormatSwap e swap = Inr message \<Longrightarrow> message \<noteq> '''' \<Longrightarrow> LoadLocation e \<noteq> None"
  by (auto simp: FormatSwap_def Let_def
      split: option.splits sum.splits prod.splits if_splits)

lemma urlEncode_message1:
  "urlEncode ''2023-11-15 06:13:20  2.00000 WBTC -> 1.00000 UNIBTC Vol: $200000.00''
     = ''2023-11-15%2006%3A13%3A20%20%202.00000%20WBTC%20-%3E%201.00000%20UNIBTC%20Vol%3A%20%24200000.00''"
  by code_simp

text \<open>
  \<^bold>\<open>C9.\<close> The URL that \<open>sendNotification\<close> hands to \<open>http.Get\<close> is the target, the
  message as \<open>FormatSwap\<close> returned it, and \<open>?call=1\<close>: the source applies no encoding to
  the message. For \<open>swap1\<close> and the default target, the request made is not the one to
  \<open>target + urlEncode(message) + "?call=1"\<close>.
\<close>

theorem notification_url_counterexample:
  "FormatSwap (ref_env remote) swap1
     = Inr ''2023-11-15 06:13:20  2.00000 WBTC -> 1.00000 UNIBTC Vol: $200000.00''
   \<and> getBarkAPIURLs world0
     = [''https://api.day.app/iuizSoSLLvtMTZhhmuWetY/%E4%BA%A4%E6%98%93%E6%8F%90%E9%86%92/'']
   \<and> sent (fst (sendNotification (ref_env remote) swap1 world0)) = [(''0xh1'', url1)]
   \<and> (''0xh1'',
        ''https://api.day.app/iuizSoSLLvtMTZhhmuWetY/%E4%BA%A4%E6%98%93%E6%8F%90%E9%86%92/''
        @ urlEncode ''2023-11-15 06:13:20  2.00000 WBTC -> 1.00000 UNIBTC Vol: $200000.00''
        @ ''?call=1'')
       \<notin> set (sent (fst (sendNotification (ref_env remote) swap1 world0)))
   \<and> sent (fst (sendNotification_storage (ref_env remote) swap1 world0_storage))
       = [(''0xh1'', url1)]
   \<and> (''0xh1'',
        ''https://api.day.app/iuizSoSLLvtMTZhhmuWetY/%E4%BA%A4%E6%98%93%E6%8F%90%E9%86%92/''
        @ urlEncode ''2023-11-15 06:13:20  2.00000 WBTC -> 1.00000 UNIBTC Vol: $200000.00''
        @ ''?call=1'')
       \<notin> set (sent (fst (sendNotification_storage (ref_env remote) swap1 world0_storage)))"
proof -
  have u: "getBarkAPIURLs world0
     = [''https://api.day.app/iuizSoSLLvtMTZhhmuWetY/%E4%BA%A4%E6%98%93%E6%8F%90%E9%86%92/'']"
    by (simp add: getBarkAPIURLs_def world0_def defaultConfig_def)
  have u': "getBarkAPIURLs world0 = BarkAPIURLs defaultConfig"
    by (simp add: getBarkAPIURLs_def world0_def)
  have s: "sent (fst (sendNotification (ref_env remote) swap1 world0)) = [(''0xh1'', url1)]"
    unfolding sendNotification_swap1 [OF u'] by (simp add: world0_def)
  have ss: "sent (fst (sendNotification_storage (ref_env remote) swap1 world0_storage))
       = [(''0xh1'', url1)]"
    unfolding sendNotification_storage_swap1 by (simp add: world0_storage_def)
  have n: "''https://api.day.app/iuizSoSLLvtMTZhhmuWetY/%E4%BA%A4%E6%98%93%E6%8F%90%E9%86%92/''
        @ urlEncode ''2023-11-15 06:13:20  2.00000 WBTC -> 1.00000 UNIBTC Vol: $200000.00''
        @ ''?call=1'' \<noteq> url1"
    unfolding urlEncode_message1 url1_def by simp
  show ?thesis
    unfolding s ss using FormatSwap_swap1 [of remote] u n by simp
qed

text \<open>
  \<^bold>\<open>C9, what holds.\<close> For every swap that \<open>FormatSwap\<close> formats to a message that is not
  empty, \<open>sendNotification\<close> makes one \<open>http.Get\<close> per target, in order, to
  \<open>target + message + "?call=1"\<close>, the message unchanged, and returns \<open>nil\<close>. The targets
  are those of the configuration in \<open>graph_task.go\<close> and the constant \<open>barkAPIURLs\<close> in the
  other variant.
\<close>

theorem notification_urls:
  "(FormatSwap e swap = Inr message \<and> message \<noteq> '''' \<longrightarrow>
      sendNotification e swap w
        = (w\<lparr>sent := sent w @ map (\<lambda>baseURL. (TransactionHash swap,
                                                 baseURL @ message @ ''?call=1''))
                                  (getBarkAPIURLs w)\<rparr>,
           Inr None))
   \<and> (FormatSwap e swap = Inr message \<and> message \<noteq> '''' \<longrightarrow>
      sendNotification_storage e swap v
        = (v\<lparr>sent := sent v @ map (\<lambda>baseURL. (TransactionHash swap,
                                                 baseURL @ message @ ''?call=1''))
                                  barkAPIURLs\<rparr>,
           Inr None))"
proof (rule conjI; rule impI; elim conjE)
  assume m: "FormatSwap e swap = Inr message" and ne: "message \<noteq> ''''"
  from FormatSwap_message_location [OF m ne] obtain render where "LoadLocation e = Some render"
    by blast
  with m ne show "sendNotification e swap w
        = (w\<lparr>sent := sent w @ map (\<lambda>baseURL. (TransactionHash swap,
                                                 baseURL @ message @ ''?call=1''))
                                  (getBarkAPIURLs w)\<rparr>,
           Inr None)"
    by (simp add: sendNotification_def foldl_httpGet)
next
  assume m: "FormatSwap e swap = Inr message" and ne: "message \<noteq> ''''"
  from FormatSwap_message_location [OF m ne] obtain render where "LoadLocation e = Some render"
    by blast
  with m ne show "sendNotification_storage e swap v
        = (v\<lparr>sent := sent v @ map (\<lambda>baseURL. (TransactionHash swap,
                                                 baseURL @ message @ ''?call=1''))
                                  barkAPIURLs\<rparr>,
           Inr None)"
    by (simp add: sendNotification_storage_def foldl_httpGet)
qed

text \<open>The statement at \<open>swap1\<close>.\<close>

theorem notification_urls_witness:
  "FormatSwap (ref_env remote) swap1
     = Inr ''2023-11-15 06:13:20  2.00000 WBTC -> 1.00000 UNIBTC Vol: $200000.00''
   \<and> sendNotification (ref_env remote) swap1 world0
       = (world0\<lparr>sent := sent world0 @
            map (\<lambda>baseURL. (TransactionHash swap1,
                   baseURL @ ''2023-11-15 06:13:20  2.00000 WBTC -> 1.00000 UNIBTC Vol: $200000.00''
                   @ ''?call=1''))
              (getBarkAPIURLs world0)\<rparr>, Inr None)
   \<and> sendNotification_storage (ref_env remote) swap1 world0_storage
       = (world0_storage\<lparr>sent := sent world0_storage @
            map (\<lambda>baseURL. (TransactionHash swap1,
                   baseURL @ ''2023-11-15 06:13:20  2.00000 WBTC -> 1.00000 UNIBTC Vol: $200000.00''
                   @ ''?call=1''))
              barkAPIURLs\<rparr>, Inr None)"
proof -
  note m = FormatSwap_swap1 [of remote]
  have ne: "''2023-11-15 06:13:20  2.00000 WBTC -> 1.00000 UNIBTC Vol: $200000.00'' \<noteq> ''''"
    by simp
  note t = notification_urls [of "ref_env remote" swap1
      "''2023-11-15 06:13:20  2.00000 WBTC -> 1.00000 UNIBTC Vol: $200000.00''"
      world0 world0_storage]
  from t m ne have a: "sendNotification (ref_env remote) swap1 world0
       = (world0\<lparr>sent := sent world0 @
            map (\<lambda>baseURL. (TransactionHash swap1,
                   baseURL @ ''2023-11-15 06:13:20  2.00000 WBTC -> 1.00000 UNIBTC Vol: $200000.00''
                   @ ''?call=1''))
              (getBarkAPIURLs world0)\<rparr>, Inr None)"
    by blast
  from t m ne have b: "sendNotification_storage (ref_env remote) swap1 world0_storage
       = (world0_storage\<lparr>sent := sent world0_storage @
            map (\<lambda>baseURL. (TransactionHash swap1,
                   baseURL @ ''2023-11-15 06:13:20  2.00000 WBTC -> 1.00000 UNIBTC Vol: $200000.00''
                   @ ''?call=1''))
              barkAPIURLs\<rparr>, Inr None)"
    by blast
  from m a b show ?thesis by (intro conjI)
qed

text \<open>
  \<^bold>\<open>C6.\<close> On a state file that does not decode, neither variant substitutes the
  hard-coded default and neither writes the file: \<open>loadConfig\<close> returns with the state
  in memory untouched, \<open>loadStorage\<close> sets the block number \<open>"0"\<close> and an empty hash list.
\<close>

theorem load_decode_failure_counterexample:
  "configFile (world1\<lparr>configFile := Some Corrupt\<rparr>) = Some Corrupt
   \<and> loadConfig (ref_env remote) (world1\<lparr>configFile := Some Corrupt\<rparr>)
       = world1\<lparr>configFile := Some Corrupt\<rparr>
   \<and> configData (loadConfig (ref_env remote) (world1\<lparr>configFile := Some Corrupt\<rparr>))
       \<noteq> defaultConfig
   \<and> configFile (loadConfig (ref_env remote) (world1\<lparr>configFile := Some Corrupt\<rparr>))
       \<noteq> Some (Document defaultConfig)
   \<and> storageFile (world1_storage\<lparr>storageFile := Some Corrupt\<rparr>) = Some Corrupt
   \<and> storageData (loadStorage (ref_env remote) (world1_storage\<lparr>storageFile := Some Corrupt\<rparr>))
       = \<lparr>LastBlockNumber_storage = ''0'', CurrentTxHashes_storage = []\<rparr>
   \<and> storageData (loadStorage (ref_env remote) (world1_storage\<lparr>storageFile := Some Corrupt\<rparr>))
       \<noteq> storage0
   \<and> storageFile (loadStorage (ref_env remote) (world1_storage\<lparr>storageFile := Some Corrupt\<rparr>))
       \<noteq> Some (Document storage0)"
  by (simp add: loadConfig_def loadStorage_def world1_def world1_storage_def config1_def
        defaultConfig_def storage0_def)

text \<open>
  \<^bold>\<open>C6, what holds.\<close> On a missing state file, the load sets the hard-coded default state
  and saves it at once (the file holds the default when it can be created and written).
  On a state file that does not decode nothing is saved: \<open>loadConfig\<close> changes nothing,
  \<open>loadStorage\<close> sets the block number \<open>"0"\<close> and an empty hash list.
\<close>

theorem load_defaults:
  "(configFile w = None \<longrightarrow>
      loadConfig e w = saveConfig e (w\<lparr>configData := defaultConfig\<rparr>) \<and>
      configData (loadConfig e w) = defaultConfig \<and>
      (canCreate e \<and> canEncode e \<longrightarrow>
         configFile (loadConfig e w) = Some (Document defaultConfig)))
   \<and> (configFile w = Some Corrupt \<longrightarrow> loadConfig e w = w)
   \<and> (storageFile v = None \<longrightarrow>
      loadStorage e v = saveStorage e (v\<lparr>storageData := storage0\<rparr>) \<and>
      storageData (loadStorage e v) = storage0 \<and>
      (canCreate e \<and> canEncode e \<longrightarrow>
         storageFile (loadStorage e v) = Some (Document storage0)))
   \<and> (storageFile v = Some Corrupt \<longrightarrow>
      loadStorage e v
        = v\<lparr>storageData := \<lparr>LastBlockNumber_storage = ''0'', CurrentTxHashes_storage = []\<rparr>\<rparr>)"
  by (simp add: loadConfig_def loadStorage_def saveConfig_def saveStorage_def storage0_def)

text \<open>The statement at \<open>world1\<close> with its file removed, and with its file
  corrupted.\<close>

theorem load_defaults_witness:
  "configFile (world1\<lparr>configFile := None\<rparr>) = None
   \<and> configData (loadConfig (ref_env remote) (world1\<lparr>configFile := None\<rparr>)) = defaultConfig
   \<and> configFile (loadConfig (ref_env remote) (world1\<lparr>configFile := None\<rparr>))
       = Some (Document defaultConfig)
   \<and> loadConfig (ref_env remote) (world1\<lparr>configFile := Some Corrupt\<rparr>)
       = world1\<lparr>configFile := Some Corrupt\<rparr>
   \<and> storageData (loadStorage (ref_env remote) (world1_storage\<lparr>storageFile := None\<rparr>))
       = storage0
   \<and> storageFile (loadStorage (ref_env remote) (world1_storage\<lparr>storageFile := None\<rparr>))
       = Some (Document storage0)
   \<and> loadStorage (ref_env remote) (world1_storage\<lparr>storageFile := Some Corrupt\<rparr>)
       = world1_storage
           \<lparr>storageFile := Some Corrupt,
            storageData := \<lparr>LastBlockNumber_storage = ''0'', CurrentTxHashes_storage = []\<rparr>\<rparr>"
proof -
  let ?e = "ref_env remote"
  have ok: "canCreate ?e \<and> canEncode ?e" by (simp add: ref_env_def)
  have n: "configFile (world1\<lparr>configFile := None\<rparr>) = None" by simp
  have ns: "storageFile (world1_storage\<lparr>storageFile := None\<rparr>) = None" by simp
  have c: "configFile (world1\<lparr>configFile := Some Corrupt\<rparr>) = Some Corrupt" by simp
  have cs: "storageFile (world1_storage\<lparr>storageFile := Some Corrupt\<rparr>) = Some Corrupt" by simp
  note t1 = load_defaults [of "world1\<lparr>configFile := None\<rparr>" ?e
      "world1_storage\<lparr>storageFile := None\<rparr>"]
  note t2 = load_defaults [of "world1\<lparr>configFile := Some Corrupt\<rparr>" ?e
      "world1_storage\<lparr>storageFile := Some Corrupt\<rparr>"]
  from t1 n ok have a1: "configData (loadConfig ?e (world1\<lparr>configFile := None\<rparr>)) = defaultConfig"
    and a2: "configFile (loadConfig ?e (world1\<lparr>configFile := None\<rparr>))
       = Some (Document defaultConfig)" by blast+
  from t1 ns ok
  have b1: "storageData (loadStorage ?e (world1_storage\<lparr>storageFile := None\<rparr>)) = storage0"
    and b2: "storageFile (loadStorage ?e (world1_storage\<lparr>storageFile := None\<rparr>))
       = Some (Document storage0)" by blast+
  from t2 c have a3: "loadConfig ?e (world1\<lparr>configFile := Some Corrupt\<rparr>)
       = world1\<lparr>configFile := Some Corrupt\<rparr>" by blast
  from t2 cs have "loadStorage ?e (world1_storage\<lparr>storageFile := Some Corrupt\<rparr>)
       = world1_storage\<lparr>storageFile := Some Corrupt\<rparr>
           \<lparr>storageData := \<lparr>LastBlockNumber_storage = ''0'', CurrentTxHashes_storage = []\<rparr>\<rparr>"
    by blast
  then have b3: "loadStorage ?e (world1_storage\<lparr>storageFile := Some Corrupt\<rparr>)
       = world1_storage
           \<lparr>storageFile := Some Corrupt,
            storageData := \<lparr>LastBlockNumber_storage = ''0'', CurrentTxHashes_storage = []\<rparr>\<rparr>"
    by simp
  from n a1 a2 a3 b1 b2 b3 show ?thesis by (intro conjI)
qed

end
